theory Spec2Isabelle
  imports Complex_Main "HOL-Library.Word" "HOL-Library.Multiset"
begin

section \<open>JavaScript values\<close>

text \<open>
  A JavaScript string is a sequence of UTF-16 code units. It is modelled as a
  \<open>string\<close> whose characters stand for the code units 0 to 255, so \<open>length\<close> is the
  \<open>.length\<close> of the source and \<open>take n\<close> is \<open>substring(0, n)\<close>.
\<close>

text \<open>
  The white space of \<open>String.prototype.trim\<close> and of the class \<open>\s\<close> of a regular
  expression, among the code units 0 to 255: tab, line feed, vertical tab, form feed,
  carriage return, space and the no-break space.
\<close>

definition whitespace :: "char list" where
  "whitespace = [CHR 0x09, CHR 0x0A, CHR 0x0B, CHR 0x0C, CHR 0x0D, CHR 0x20, CHR 0xA0]"

definition is_space :: "char \<Rightarrow> bool" where
  "is_space c = (c \<in> set whitespace)"

definition trim :: "string \<Rightarrow> string" where
  "trim s = rev (dropWhile is_space (rev (dropWhile is_space s)))"

text \<open>\<open>s.includes(p)\<close>: \<open>p\<close> occurs in \<open>s\<close> as a contiguous run.\<close>

fun starts_with :: "string \<Rightarrow> string \<Rightarrow> bool" where
  "starts_with s [] = True"
| "starts_with [] (p # ps) = False"
| "starts_with (c # cs) (p # ps) = (c = p \<and> starts_with cs ps)"

fun includes_str :: "string \<Rightarrow> string \<Rightarrow> bool" where
  "includes_str [] p = (p = [])"
| "includes_str (c # cs) p = (starts_with (c # cs) p \<or> includes_str cs p)"

text \<open>
  A value that came out of \<open>JSON.parse\<close>. A property that is absent reads as
  \<open>undefined\<close>, which is \<open>None\<close> of a \<open>json option\<close>.
\<close>

datatype json =
    JNull
  | JBool bool
  | JNum real
  | JStr string
  | JArr "json list"
  | JObj "(string \<times> json) list"

text \<open>Truthiness, as \<open>!x\<close>, \<open>x || y\<close> and \<open>if (x)\<close> read it.\<close>

fun truthy :: "json option \<Rightarrow> bool" where
  "truthy None = False"
| "truthy (Some JNull) = False"
| "truthy (Some (JBool b)) = b"
| "truthy (Some (JNum n)) = (n \<noteq> 0)"
| "truthy (Some (JStr s)) = (s \<noteq> [])"
| "truthy (Some (JArr xs)) = True"
| "truthy (Some (JObj kvs)) = True"

text \<open>
  A thrown exception: the classes it is an instance of (its own class first, then the
  classes that one extends) and its message.
\<close>

record js_error =
  err_classes :: "string list"
  err_message :: string

definition mk_error :: "string \<Rightarrow> string \<Rightarrow> js_error" where
  "mk_error n m =
     \<lparr>err_classes = (if n = ''Error'' then [''Error''] else [n, ''Error'']), err_message = m\<rparr>"

text \<open>\<open>e instanceof C\<close>\<close>

definition instance_of :: "js_error \<Rightarrow> string \<Rightarrow> bool" where
  "instance_of e c = (c \<in> set (err_classes e))"

text \<open>A non-negative integer as a template literal prints it: its decimal digits.\<close>

definition digit :: "nat \<Rightarrow> char" where
  "digit d = ''0123456789'' ! d"

function decimal :: "nat \<Rightarrow> string" where
  "decimal n = (if n < 10 then [digit n] else decimal (n div 10) @ [digit (n mod 10)])"
  by pat_completeness auto
termination
  by (relation "measure id") auto

declare decimal.simps [simp del]

text \<open>Reading a property: only an object has the properties the handlers ask for.\<close>

fun get_prop :: "json \<Rightarrow> string \<Rightarrow> json option" where
  "get_prop (JObj kvs) k = map_of kvs k"
| "get_prop v k = None"

text \<open>\<open>v || d\<close>\<close>

definition or_json :: "json option \<Rightarrow> json \<Rightarrow> json" where
  "or_json v d = (case v of Some x \<Rightarrow> if truthy (Some x) then x else d | None \<Rightarrow> d)"

text \<open>\<open>typeof x === 'string'\<close>\<close>

fun is_string :: "json option \<Rightarrow> bool" where
  "is_string (Some (JStr s)) = True"
| "is_string v = False"

fun str_of :: "json option \<Rightarrow> string" where
  "str_of (Some (JStr s)) = s"
| "str_of v = []"

text \<open>An environment variable is a string or undefined; the empty string is falsy.\<close>

definition configured :: "string option \<Rightarrow> bool" where
  "configured v = (case v of Some s \<Rightarrow> s \<noteq> [] | None \<Rightarrow> False)"

text \<open>\<open>res.status(n).json(b)\<close>\<close>

record http_response =
  status :: nat
  body :: json

definition respond :: "nat \<Rightarrow> json \<Rightarrow> http_response" where
  "respond n b = \<lparr>status = n, body = b\<rparr>"

section \<open>login.js: constantTimeCompare\<close>

type_synonym byte = "8 word"

text \<open>
  \<open>Buffer.from(s, 'utf8')\<close> on code units below 256: one byte below 128, two bytes
  from 128 on.
\<close>

definition utf8_unit :: "char \<Rightarrow> byte list" where
  "utf8_unit c =
     (let n = (of_char c :: nat)
      in if n < 128 then [of_nat n]
         else [of_nat (192 + n div 64), of_nat (128 + n mod 64)])"

definition buffer_from_utf8 :: "string \<Rightarrow> byte list" where
  "buffer_from_utf8 s = concat (map utf8_unit s)"

text \<open>
  \<open>crypto.timingSafeEqual\<close>: throws a RangeError when the two buffers differ in byte
  length, and otherwise tells whether they hold the same bytes.
\<close>

definition timingSafeEqual :: "byte list \<Rightarrow> byte list \<Rightarrow> js_error + bool" where
  "timingSafeEqual x y =
     (if length x \<noteq> length y
      then Inl (mk_error ''RangeError'' ''Input buffers must have the same byte length'')
      else Inr (x = y))"

text \<open>
  The result is a sum so that a throw would be visible as \<open>Inl\<close>; the \<open>try\<close> of the
  source turns the throw of \<open>timingSafeEqual\<close> into \<open>false\<close>.
\<close>

definition constantTimeCompare :: "string \<Rightarrow> string \<Rightarrow> js_error + bool" where
  "constantTimeCompare a b =
     (if a = [] \<or> b = [] then Inr False
      else if length a \<noteq> length b then Inr False
      else (case timingSafeEqual (buffer_from_utf8 a) (buffer_from_utf8 b) of
              Inr r \<Rightarrow> Inr r
            | Inl e \<Rightarrow> Inr False))"

section \<open>rate-limit.js\<close>

record rate_record =
  count :: int
  resetTime :: int

type_synonym rate_store = "string \<rightharpoonup> rate_record"

record rate_request =
  x_forwarded_for :: "string option"
  x_real_ip :: "string option"
  remoteAddress :: "string option"
  url :: string

record rate_options =
  opt_windowMs :: "int option"
  opt_max :: "int option"

record rate_result =
  allowed :: bool
  remaining :: int
  res_resetTime :: int
  retryAfter :: "int option"

text \<open>\<open>cleanup\<close> reads the clock itself; \<open>now\<close> is that reading.\<close>

definition cleanup :: "int \<Rightarrow> rate_store \<Rightarrow> rate_store" where
  "cleanup now st =
     (\<lambda>k. case st k of
             None \<Rightarrow> None
           | Some v \<Rightarrow> if resetTime v < now then None else Some v)"

text \<open>\<open>a || b\<close> on strings that may be undefined: the empty string is falsy too.\<close>

definition or_else :: "string option \<Rightarrow> string option \<Rightarrow> string option" where
  "or_else a b = (case a of Some s \<Rightarrow> (if s \<noteq> [] then Some s else b) | None \<Rightarrow> b)"

definition client_identifier :: "rate_request \<Rightarrow> string" where
  "client_identifier req =
     (case or_else (map_option (\<lambda>h. trim (takeWhile (\<lambda>c. c \<noteq> CHR '','') h)) (x_forwarded_for req))
             (or_else (x_real_ip req) (or_else (remoteAddress req) (Some ''unknown''))) of
        Some s \<Rightarrow> s
      | None \<Rightarrow> ''unknown'')"

definition rate_key :: "rate_request \<Rightarrow> string" where
  "rate_key req = client_identifier req @ '':'' @ url req"

text \<open>\<open>Math.ceil(x / 1000)\<close> for an integer number of milliseconds \<open>x\<close>.\<close>

definition ceil_div_1000 :: "int \<Rightarrow> int" where
  "ceil_div_1000 x = - ((- x) div 1000)"

text \<open>
  \<open>checkRateLimit\<close> reads the clock twice: inside \<open>cleanup\<close> (\<open>now0\<close>) and for its own
  \<open>now\<close>. It returns its result and the store as it leaves it.
\<close>

definition checkRateLimit ::
  "rate_request \<Rightarrow> rate_options \<Rightarrow> int \<Rightarrow> int \<Rightarrow> rate_store \<Rightarrow> rate_result \<times> rate_store" where
  "checkRateLimit req options now0 now st0 =
     (let windowMs = (case opt_windowMs options of None \<Rightarrow> 15 * 60 * 1000 | Some w \<Rightarrow> w);
          mx = (case opt_max options of None \<Rightarrow> 100 | Some m \<Rightarrow> m);
          st = cleanup now0 st0;
          key = rate_key req
      in case st key of
           Some record \<Rightarrow>
             if resetTime record < now then
               (\<lparr>allowed = True, remaining = mx - 1, res_resetTime = now + windowMs,
                 retryAfter = None\<rparr>,
                st(key \<mapsto> \<lparr>count = 1, resetTime = now + windowMs\<rparr>))
             else if count record \<ge> mx then
               (\<lparr>allowed = False, remaining = 0, res_resetTime = resetTime record,
                 retryAfter = Some (ceil_div_1000 (resetTime record - now))\<rparr>,
                st)
             else
               (\<lparr>allowed = True, remaining = mx - (count record + 1),
                 res_resetTime = resetTime record, retryAfter = None\<rparr>,
                st(key \<mapsto> record\<lparr>count := count record + 1\<rparr>))
         | None \<Rightarrow>
             (\<lparr>allowed = True, remaining = mx - 1, res_resetTime = now + windowMs,
               retryAfter = None\<rparr>,
              st(key \<mapsto> \<lparr>count = 1, resetTime = now + windowMs\<rparr>)))"

text \<open>
  A caller issuing one request after the other: each entry of the list is the pair of
  clock readings of one call, and the results come back in the order of the calls.
\<close>

fun serve ::
  "rate_request \<Rightarrow> rate_options \<Rightarrow> (int \<times> int) list \<Rightarrow> rate_store
     \<Rightarrow> rate_result list \<times> rate_store" where
  "serve req options [] st = ([], st)"
| "serve req options ((now0, now) # ts) st =
     (let (r, st') = checkRateLimit req options now0 now st;
          (rs, st'') = serve req options ts st'
      in (r # rs, st''))"

section \<open>Regular expressions\<close>

text \<open>
  The regular expressions of the source are all anchored at both ends (\<open>^\<close> ... \<open>$\<close>,
  without the \<open>m\<close> flag), so \<open>test\<close> asks whether the whole string matches. A class
  \<open>[...]\<close> is \<open>OneOf\<close>, a negated class is \<open>NoneOf\<close>, \<open>r+\<close> is \<open>Plus r\<close>, \<open>r?\<close> is
  \<open>Opt r\<close>. \<open>matches\<close> decides the match by taking the derivative of the expression by
  each character in turn.
\<close>

datatype regex =
    Nothing
  | Eps
  | OneOf "char list"
  | NoneOf "char list"
  | Seq regex regex
  | Alt regex regex
  | Star regex

definition Plus :: "regex \<Rightarrow> regex" where
  "Plus r = Seq r (Star r)"

definition Opt :: "regex \<Rightarrow> regex" where
  "Opt r = Alt r Eps"

fun nullable :: "regex \<Rightarrow> bool" where
  "nullable Nothing = False"
| "nullable Eps = True"
| "nullable (OneOf cs) = False"
| "nullable (NoneOf cs) = False"
| "nullable (Seq r s) = (nullable r \<and> nullable s)"
| "nullable (Alt r s) = (nullable r \<or> nullable s)"
| "nullable (Star r) = True"

fun deriv :: "char \<Rightarrow> regex \<Rightarrow> regex" where
  "deriv c Nothing = Nothing"
| "deriv c Eps = Nothing"
| "deriv c (OneOf cs) = (if c \<in> set cs then Eps else Nothing)"
| "deriv c (NoneOf cs) = (if c \<in> set cs then Nothing else Eps)"
| "deriv c (Seq r s) =
     (if nullable r then Alt (Seq (deriv c r) s) (deriv c s) else Seq (deriv c r) s)"
| "deriv c (Alt r s) = Alt (deriv c r) (deriv c s)"
| "deriv c (Star r) = Seq (deriv c r) (Star r)"

fun matches :: "regex \<Rightarrow> string \<Rightarrow> bool" where
  "matches r [] = nullable r"
| "matches r (c # cs) = matches (deriv c r) cs"

text \<open>The strings an expression stands for, to reason about \<open>matches\<close>.\<close>

inductive_set iter :: "string set \<Rightarrow> string set" for A :: "string set" where
  iter_nil: "[] \<in> iter A"
| iter_step: "u \<in> A \<Longrightarrow> v \<in> iter A \<Longrightarrow> u @ v \<in> iter A"

definition glue :: "string set \<Rightarrow> string set \<Rightarrow> string set" where
  "glue A B = {u @ v | u v. u \<in> A \<and> v \<in> B}"

fun lang :: "regex \<Rightarrow> string set" where
  "lang Nothing = {}"
| "lang Eps = {[]}"
| "lang (OneOf cs) = {[c] | c. c \<in> set cs}"
| "lang (NoneOf cs) = {[c] | c. c \<notin> set cs}"
| "lang (Seq r s) = glue (lang r) (lang s)"
| "lang (Alt r s) = lang r \<union> lang s"
| "lang (Star r) = iter (lang r)"

section \<open>send-email: the validators and the handler\<close>

text \<open>
  A literal of a pattern; under the \<open>i\<close> flag an ASCII letter of the pattern matches
  itself in both cases.
\<close>

definition lit :: "string \<Rightarrow> regex" where
  "lit s = foldr (\<lambda>c r. Seq (OneOf [c]) r) s Eps"

definition to_upper :: "char \<Rightarrow> char" where
  "to_upper c = (let n = (of_char c :: nat) in if 97 \<le> n \<and> n \<le> 122 then char_of (n - 32) else c)"

definition to_lower :: "char \<Rightarrow> char" where
  "to_lower c = (let n = (of_char c :: nat) in if 65 \<le> n \<and> n \<le> 90 then char_of (n + 32) else c)"

definition lit_i :: "string \<Rightarrow> regex" where
  "lit_i s = foldr (\<lambda>c r. Seq (OneOf [to_lower c, to_upper c]) r) s Eps"

definition seqs :: "regex list \<Rightarrow> regex" where
  "seqs rs = foldr Seq rs Eps"

definition emailRegex :: regex where
  "emailRegex =
     seqs [Plus (NoneOf (whitespace @ ''@'')), lit ''@'', Plus (NoneOf (whitespace @ ''@'')),
           lit ''.'', Plus (NoneOf (whitespace @ ''@''))]"

text \<open>A non-empty string without white space and without \<open>@\<close>.\<close>

definition plain :: "string \<Rightarrow> bool" where
  "plain w = (w \<noteq> [] \<and> (\<forall>c \<in> set w. \<not> is_space c \<and> c \<noteq> CHR ''@''))"

definition emptyPatterns :: "regex list" where
  "emptyPatterns =
     [seqs [lit_i ''<p>'', Star (OneOf whitespace), lit_i ''</p>''],
      seqs [lit_i ''<p><br'', Star (OneOf whitespace), Opt (lit_i ''/''), lit_i ''></p>''],
      seqs [lit_i ''<p>'', Star (OneOf whitespace), lit_i ''<br'', Star (OneOf whitespace),
            Opt (lit_i ''/''), lit_i ''>'', Star (OneOf whitespace), lit_i ''</p>''],
      lit_i ''<p>&nbsp;</p>'',
      seqs [lit_i ''<p>'', Star (OneOf whitespace), lit_i ''&nbsp;'', Star (OneOf whitespace),
            lit_i ''</p>'']]"

definition isEmptyHTML :: "json option \<Rightarrow> bool" where
  "isEmptyHTML html =
     (case html of
        Some (JStr s) \<Rightarrow>
          if s = [] then True
          else (let trimmed = trim s
                in if trimmed = [] then True
                   else list_ex (\<lambda>pattern. matches pattern trimmed) emptyPatterns)
      | _ \<Rightarrow> True)"

definition isValidEmail :: "json option \<Rightarrow> bool" where
  "isValidEmail email =
     (case email of
        Some (JStr s) \<Rightarrow> if s = [] then False else matches emailRegex (trim s)
      | _ \<Rightarrow> False)"






text \<open>The message handed to \<open>resend.emails.send\<close>, and what the provider answers.\<close>

record outbound =
  msg_from :: string
  msg_to :: "string list"
  msg_subject :: string
  msg_html :: string

record send_reply =
  reply_data :: "json option"
  reply_error :: "json option"

definition error_body :: "string \<Rightarrow> json" where
  "error_body m = JObj [(''error'', JStr m)]"

definition error_message :: "json \<Rightarrow> json" where
  "error_message m = JObj [(''error'', JObj [(''message'', m)])]"

definition internal_error :: http_response where
  "internal_error =
     respond 500 (error_message (JStr ''Internal Server Error. Please try again later.''))"

text \<open>
  \<open>sendEmailHandler\<close> from the validation of the three fields on. The provider call is
  the parameter \<open>resend_send\<close>, which answers or throws; the result is the response and
  the messages handed to the provider.
\<close>

definition validate_and_send ::
  "(outbound \<Rightarrow> js_error + send_reply) \<Rightarrow> json \<Rightarrow> http_response \<times> outbound list" where
  "validate_and_send resend_send b =
     (let to = get_prop b ''to''; subject = get_prop b ''subject''; html = get_prop b ''html''
      in if \<not> truthy to \<or> \<not> is_string to then
           (respond 400 (error_message (JStr ''Recipient email address is required.'')), [])
         else if \<not> isValidEmail to then
           (respond 400 (error_message (JStr ''Invalid email address format.'')), [])
         else if \<not> truthy subject \<or> \<not> is_string subject \<or> trim (str_of subject) = [] then
           (respond 400 (error_message (JStr ''Email subject is required.'')), [])
         else if isEmptyHTML html then
           (respond 400 (error_message (JStr ''Email body cannot be empty.'')), [])
         else
           (let sanitizedSubject = take 200 (trim (str_of subject));
                msg = \<lparr>msg_from = ''The Warmthly Desk <desk@warmthly.org>'',
                       msg_to = [trim (str_of to)],
                       msg_subject = sanitizedSubject,
                       msg_html = str_of html\<rparr>
            in case resend_send msg of
                 Inl e \<Rightarrow> (internal_error, [msg])
               | Inr reply \<Rightarrow>
                   if truthy (reply_error reply) then
                     (respond 400 (error_message
                        (or_json (case reply_error reply of
                                    Some err \<Rightarrow> get_prop err ''message''
                                  | None \<Rightarrow> None)
                           (JStr ''Failed to send email. Please try again.''))), [msg])
                   else
                     (respond 200 (JObj ((''message'', JStr ''Email sent successfully!'')
                        # (case reply_data reply of None \<Rightarrow> [] | Some d \<Rightarrow> [(''data'', d)]))),
                      [msg])))"

text \<open>
  \<open>sendEmailHandler\<close> up to the destructuring of \<open>req.body\<close>, which throws when there is
  no body; the \<open>catch\<close> turns the throw into the 500 response.
\<close>

definition sendEmailHandler ::
  "(outbound \<Rightarrow> js_error + send_reply) \<Rightarrow> string \<Rightarrow> string option \<Rightarrow> json option
     \<Rightarrow> http_response \<times> outbound list" where
  "sendEmailHandler resend_send method RESEND_API_KEY req_body =
     (if method \<noteq> ''POST'' then
        (respond 405 (error_message (JStr ''Method Not Allowed'')), [])
      else if \<not> configured RESEND_API_KEY then
        (respond 500 (error_message
           (JStr ''Email service is not configured. Please contact the administrator.'')), [])
      else case req_body of
        None \<Rightarrow> (internal_error, [])
      | Some b \<Rightarrow>
          if b = JNull then (internal_error, []) else validate_and_send resend_send b)"

section \<open>getRedisClient\<close>

text \<open>
  get-emails.js and inbound-email.js each hold the same \<open>getRedisClient\<close> (only the
  prefix of the log lines differs) over a module variable \<open>redisClient\<close>.
\<close>

datatype reconnect = Delay int | GiveUp js_error

definition reconnectStrategy :: "int \<Rightarrow> reconnect" where
  "reconnectStrategy retries =
     (if retries > 3 then GiveUp (mk_error ''Error'' ''Redis reconnection failed'')
      else Delay (min (retries * 100) 3000))"

record client_options =
  opt_url :: string
  opt_reconnectStrategy :: "int \<Rightarrow> reconnect"

record 'c acquired =
  outcome :: "js_error + 'c"
  cache :: "'c option"
  created :: "client_options list"

text \<open>
  The client library is a parameter: \<open>createClient\<close> builds a client from its options,
  \<open>isOpen\<close> reads the client's flag, \<open>connect\<close> opens the client or throws. The result
  is what the call returns or throws, the module variable afterwards, and the options
  of the clients the call created.
\<close>

definition getRedisClient ::
  "(client_options \<Rightarrow> 'c) \<Rightarrow> ('c \<Rightarrow> bool) \<Rightarrow> ('c \<Rightarrow> js_error + 'c) \<Rightarrow> string option
     \<Rightarrow> 'c option \<Rightarrow> 'c acquired" where
  "getRedisClient createClient isOpen connect REDIS_URL redisClient =
     (let fresh =
        (if \<not> configured REDIS_URL then
           \<lparr>outcome = Inl (mk_error ''Error'' ''REDIS_URL is not configured''),
            cache = redisClient, created = []\<rparr>
         else
           (let opts = \<lparr>opt_url = (case REDIS_URL of Some u \<Rightarrow> u | None \<Rightarrow> []),
                        opt_reconnectStrategy = reconnectStrategy\<rparr>;
                c = createClient opts
            in if \<not> isOpen c then
                 (case connect c of
                    Inr c' \<Rightarrow> \<lparr>outcome = Inr c', cache = Some c', created = [opts]\<rparr>
                  | Inl connectError \<Rightarrow>
                      \<lparr>outcome = Inl connectError, cache = None, created = [opts]\<rparr>)
               else \<lparr>outcome = Inr c, cache = Some c, created = [opts]\<rparr>))
      in case redisClient of
           Some c \<Rightarrow>
             if isOpen c then \<lparr>outcome = Inr c, cache = redisClient, created = []\<rparr> else fresh
         | None \<Rightarrow> fresh)"

section \<open>get-emails.js: getEmailsHandler\<close>

text \<open>\<open>details: process.env.NODE_ENV === 'development' ? error.message : undefined\<close>\<close>

definition details :: "string option \<Rightarrow> js_error \<Rightarrow> (string \<times> json) list" where
  "details NODE_ENV e =
     (if NODE_ENV = Some ''development'' then [(''details'', JStr (err_message e))] else [])"

text \<open>The \<open>catch\<close> of the handler.\<close>

definition get_emails_catch :: "string option \<Rightarrow> js_error \<Rightarrow> http_response" where
  "get_emails_catch NODE_ENV e =
     (if instance_of e ''JsonWebTokenError'' then respond 401 (error_body ''Invalid token.'')
      else if instance_of e ''TokenExpiredError'' then
        respond 401 (error_body ''Token expired. Please log in again.'')
      else if err_message e \<noteq> [] \<and> includes_str (err_message e) ''REDIS'' then
        respond 500 (JObj ((''error'',
            JStr ''Database connection error. Please check REDIS_URL configuration.'')
          # details NODE_ENV e))
      else respond 500 (JObj ((''error'', JStr ''Failed to fetch emails.'') # details NODE_ENV e)))"

text \<open>
  The strings read from the list become objects: an entry that \<open>JSON.parse\<close> rejects
  becomes \<open>null\<close>, and the \<open>null\<close>s are filtered out. Then the list is reversed.
\<close>

definition parse_emails :: "(string \<Rightarrow> js_error + json) \<Rightarrow> string list \<Rightarrow> json list" where
  "parse_emails JSON_parse emails =
     filter (\<lambda>email. email \<noteq> JNull)
       (map (\<lambda>email. case JSON_parse email of Inr v \<Rightarrow> v | Inl e \<Rightarrow> JNull) emails)"

text \<open>
  \<open>getEmailsHandler\<close>. Parameters: \<open>jwt_verify token secret\<close> for \<open>jwt.verify\<close>, the
  result of \<open>await getRedisClient()\<close>, \<open>lRange\<close> for \<open>client.lRange\<close> and
  \<open>JSON_parse\<close> for \<open>JSON.parse\<close>; the last three throw or return.
\<close>

definition getEmailsHandler ::
  "(string \<Rightarrow> string \<Rightarrow> js_error + json) \<Rightarrow> (js_error + 'c)
     \<Rightarrow> ('c \<Rightarrow> string \<Rightarrow> int \<Rightarrow> int \<Rightarrow> js_error + string list)
     \<Rightarrow> (string \<Rightarrow> js_error + json)
     \<Rightarrow> string option \<Rightarrow> string option \<Rightarrow> string \<Rightarrow> string option \<Rightarrow> http_response" where
  "getEmailsHandler jwt_verify client lRange JSON_parse JWT_SECRET NODE_ENV method authorization =
     (if method \<noteq> ''GET'' then respond 405 (error_body ''Method Not Allowed'')
      else case authorization of
        None \<Rightarrow> respond 401 (error_body ''Authentication required.'')
      | Some authHeader \<Rightarrow>
          if authHeader = [] \<or> \<not> starts_with authHeader ''Bearer '' then
            respond 401 (error_body ''Authentication required.'')
          else
            (let token = takeWhile (\<lambda>c. c \<noteq> CHR '' '') (drop 7 authHeader)
             in case JWT_SECRET of
                  None \<Rightarrow> respond 500 (error_body ''Authentication system not configured.'')
                | Some jwtSecret \<Rightarrow>
                    if jwtSecret = [] then
                      respond 500 (error_body ''Authentication system not configured.'')
                    else
                      (case jwt_verify token jwtSecret of
                         Inl e \<Rightarrow> get_emails_catch NODE_ENV e
                       | Inr claims \<Rightarrow>
                           (case client of
                              Inl e \<Rightarrow> get_emails_catch NODE_ENV e
                            | Inr c \<Rightarrow>
                                (case (case lRange c ''emails'' 0 99 of
                                         Inr found \<Rightarrow> Inr found
                                       | Inl kvError \<Rightarrow>
                                           if err_message kvError \<noteq> []
                                              \<and> (includes_str (err_message kvError) ''WRONGTYPE''
                                                 \<or> includes_str (err_message kvError) ''no such key'')
                                           then Inr []
                                           else Inl kvError) of
                                   Inl e \<Rightarrow> get_emails_catch NODE_ENV e
                                 | Inr emails \<Rightarrow>
                                     (let parsedEmails = parse_emails JSON_parse emails;
                                          reversedEmails = rev parsedEmails
                                      in respond 200 (JArr reversedEmails)))))))"

section \<open>inbound-email.js: handler\<close>

record webhook_request =
  wh_method :: string
  wh_raw :: "js_error + string"
  wh_body :: "json option"
  svix_signature :: "string option"
  svix_id :: "string option"
  svix_timestamp :: "string option"

record webhook_headers =
  h_svix_id :: "string option"
  h_svix_timestamp :: "string option"
  h_svix_signature :: "string option"

definition webhook_catch :: "string option \<Rightarrow> js_error \<Rightarrow> http_response" where
  "webhook_catch NODE_ENV e =
     respond 500 (JObj ((''error'', JStr ''Error processing webhook.'') # details NODE_ENV e))"

text \<open>
  The object that is stored. \<open>now_ms\<close> is \<open>Date.now()\<close> and \<open>now_iso\<close> is
  \<open>new Date().toISOString()\<close> at that point.
\<close>

definition emailToStore :: "nat \<Rightarrow> string \<Rightarrow> json \<Rightarrow> json" where
  "emailToStore now_ms now_iso emailData =
     JObj [(''id'', or_json (get_prop emailData ''email_id'') (JStr (''email-'' @ decimal now_ms))),
           (''from'', or_json (get_prop emailData ''from'') (JStr ''Unknown'')),
           (''to'', or_json (get_prop emailData ''to'') (JStr ''Unknown'')),
           (''subject'', or_json (get_prop emailData ''subject'') (JStr ''(No Subject)'')),
           (''receivedAt'', or_json (get_prop emailData ''created_at'') (JStr now_iso))]"

text \<open>
  The first \<open>try\<close> of \<open>handler\<close>: the raw body that \<open>getRawBody\<close> resolved to; when
  \<open>getRawBody\<close> rejected, the serialised \<open>req.body\<close> if there is one, and a throw
  otherwise.
\<close>

definition read_body :: "(json \<Rightarrow> string) \<Rightarrow> webhook_request \<Rightarrow> js_error + string" where
  "read_body JSON_stringify req =
     (case wh_raw req of
        Inr raw \<Rightarrow> Inr raw
      | Inl bodyError \<Rightarrow>
          if truthy (wh_body req)
          then Inr (JSON_stringify (case wh_body req of Some b \<Rightarrow> b | None \<Rightarrow> JNull))
          else Inl (mk_error ''Error'' ''Could not get request body''))"

definition signature_headers :: "webhook_request \<Rightarrow> webhook_headers" where
  "signature_headers req =
     \<lparr>h_svix_id = svix_id req, h_svix_timestamp = svix_timestamp req,
      h_svix_signature = svix_signature req\<rparr>"

text \<open>
  \<open>handler\<close> from the point where \<open>event\<close> is verified. Parameters: the result of
  \<open>await getRedisClient()\<close>, \<open>lPush\<close> for \<open>client.lPush\<close> and \<open>JSON_stringify\<close>. The
  result is the response and the \<open>lPush\<close> calls made, as (key, value). Reading
  \<open>event.type\<close> throws when the event is \<open>null\<close>; the line that logs the stored object
  calls \<open>substring\<close> on its subject, which throws when the subject is not a string.
\<close>

definition process_event ::
  "(js_error + 'c) \<Rightarrow> ('c \<Rightarrow> string \<Rightarrow> string \<Rightarrow> js_error + int) \<Rightarrow> (json \<Rightarrow> string)
     \<Rightarrow> string option \<Rightarrow> nat \<Rightarrow> string \<Rightarrow> json \<Rightarrow> http_response \<times> (string \<times> string) list" where
  "process_event client lPush JSON_stringify NODE_ENV now_ms now_iso event =
     (if event = JNull then
        (webhook_catch NODE_ENV (mk_error ''TypeError'' ''Cannot read properties of null''), [])
      else if get_prop event ''type'' = Some (JStr ''email.received'') then
        (if \<not> truthy (get_prop event ''data'') then
           (respond 400 (error_body ''Email data is missing''), [])
         else
           (case client of
              Inl e \<Rightarrow> (webhook_catch NODE_ENV e, [])
            | Inr c \<Rightarrow>
                (let emailData = (case get_prop event ''data'' of Some d \<Rightarrow> d | None \<Rightarrow> JNull);
                     stored = emailToStore now_ms now_iso emailData
                 in if \<not> is_string (get_prop stored ''subject'') then
                      (webhook_catch NODE_ENV (mk_error ''TypeError''
                         ''emailToStore.subject.substring is not a function''), [])
                    else
                      (let emailJson = JSON_stringify stored
                       in case lPush c ''emails'' emailJson of
                            Inl saveError \<Rightarrow>
                              (webhook_catch NODE_ENV saveError, [(''emails'', emailJson)])
                          | Inr result \<Rightarrow>
                              (respond 200 (JObj [(''message'',
                                 JStr ''Webhook processed successfully.'')]),
                               [(''emails'', emailJson)])))))
      else
        (respond 200 (JObj [(''message'', JStr ''Webhook processed successfully.'')]), []))"

text \<open>
  \<open>handler\<close> up to the verification; \<open>verify\<close> stands for \<open>resend.webhooks.verify\<close>,
  which returns the event or throws.
\<close>

definition handler ::
  "(string \<Rightarrow> webhook_headers \<Rightarrow> string \<Rightarrow> js_error + json) \<Rightarrow> (js_error + 'c)
     \<Rightarrow> ('c \<Rightarrow> string \<Rightarrow> string \<Rightarrow> js_error + int) \<Rightarrow> (json \<Rightarrow> string)
     \<Rightarrow> string option \<Rightarrow> string option \<Rightarrow> nat \<Rightarrow> string \<Rightarrow> webhook_request
     \<Rightarrow> http_response \<times> (string \<times> string) list" where
  "handler verify client lPush JSON_stringify RESEND_WEBHOOK_SECRET NODE_ENV now_ms now_iso req =
     (if wh_method req \<noteq> ''POST'' then (respond 405 (error_body ''Method Not Allowed''), [])
      else case read_body JSON_stringify req of
        Inl e \<Rightarrow> (webhook_catch NODE_ENV e, [])
      | Inr rawBody \<Rightarrow>
          if \<not> configured RESEND_WEBHOOK_SECRET then
            (respond 500 (error_body ''Webhook verification not configured''), [])
          else
            (let webhookSecret = (case RESEND_WEBHOOK_SECRET of Some v \<Rightarrow> v | None \<Rightarrow> [])
             in case verify rawBody (signature_headers req) webhookSecret of
                  Inl verifyError \<Rightarrow>
                    (respond 401 (error_body ''Webhook verification failed.''), [])
                | Inr event \<Rightarrow>
                    process_event client lPush JSON_stringify NODE_ENV now_ms now_iso event))"

section \<open>login.js: loginHandler\<close>

text \<open>
  \<open>loginHandler\<close>, for a body whose \<open>password\<close> is a string or absent. \<open>jwt_sign payload
  secret expiresIn\<close> stands for \<open>jwt.sign\<close>; the handler has no \<open>try\<close>, so a throw of
  \<open>jwt.sign\<close> leaves the handler as a throw (\<open>Inl\<close>).
\<close>

definition loginHandler ::
  "(json \<Rightarrow> string \<Rightarrow> string \<Rightarrow> js_error + string) \<Rightarrow> string \<Rightarrow> string option
     \<Rightarrow> string option \<Rightarrow> string option \<Rightarrow> js_error + http_response" where
  "loginHandler jwt_sign method password ADMIN_PASSWORD JWT_SECRET =
     (if method \<noteq> ''POST'' then Inr (respond 405 (error_body ''Method Not Allowed''))
      else case ADMIN_PASSWORD of
        None \<Rightarrow> Inr (respond 500 (error_body ''Admin password not configured.''))
      | Some adminPassword \<Rightarrow>
          if adminPassword = [] then
            Inr (respond 500 (error_body ''Admin password not configured.''))
          else
            (case constantTimeCompare (case password of Some pw \<Rightarrow> pw | None \<Rightarrow> [])
                    adminPassword of
               Inl e \<Rightarrow> Inl e
             | Inr False \<Rightarrow> Inr (respond 401 (error_body ''Incorrect password''))
             | Inr True \<Rightarrow>
                 (case JWT_SECRET of
                    None \<Rightarrow> Inr (respond 500 (error_body ''Authentication system not configured.''))
                  | Some jwtSecret \<Rightarrow>
                      if jwtSecret = [] then
                        Inr (respond 500 (error_body ''Authentication system not configured.''))
                      else
                        (case jwt_sign (JObj [(''user'', JStr ''admin'')]) jwtSecret ''8h'' of
                           Inl e \<Rightarrow> Inl e
                         | Inr token \<Rightarrow> Inr (respond 200 (JObj [(''token'', JStr token)]))))))"

section \<open>The token library\<close>

text \<open>
  Modelled from the spec: the token library behind \<open>jwt.sign\<close> and \<open>jwt.verify\<close> (the
  package jsonwebtoken), which is not under src/. The specification says of it:
  "\<open>issue(claims) -> token\<close> produces a signed token carrying \<open>{user: "admin"}\<close> with
  8-hour expiry; \<open>verify(token) -> claims | fails(InvalidToken | ExpiredToken)\<close> checks
  signature and expiry. Signing secret and verification secret are the same shared
  key". A token is its claims, the instant it expires (in milliseconds, as the clock of
  the handlers) and its signature.
\<close>

record token =
  tok_claims :: json
  tok_expires :: int
  tok_signature :: string

text \<open>Modelled from the spec: the 8-hour expiry, in milliseconds.\<close>

definition eight_hours :: int where
  "eight_hours = 8 * 60 * 60 * 1000"

text \<open>Modelled from the spec: the two failures of \<open>verify\<close>.\<close>

definition InvalidToken :: js_error where
  "InvalidToken = mk_error ''JsonWebTokenError'' ''invalid signature''"

definition ExpiredToken :: js_error where
  "ExpiredToken = mk_error ''TokenExpiredError'' ''jwt expired''"

text \<open>
  Modelled from the spec: \<open>issue\<close>. The signature scheme is the parameter \<open>mac\<close>, which
  signs the claims and the expiry under the secret.
\<close>

definition issue :: "(string \<Rightarrow> json \<Rightarrow> int \<Rightarrow> string) \<Rightarrow> int \<Rightarrow> json \<Rightarrow> string \<Rightarrow> token" where
  "issue mac now claims secret =
     \<lparr>tok_claims = claims, tok_expires = now + eight_hours,
      tok_signature = mac secret claims (now + eight_hours)\<rparr>"

text \<open>
  Modelled from the spec: \<open>verify\<close> checks the signature, then the expiry. The
  specification leaves the instant of expiry itself open; here the token is expired
  from that instant on.
\<close>

definition verify_token ::
  "(string \<Rightarrow> json \<Rightarrow> int \<Rightarrow> string) \<Rightarrow> int \<Rightarrow> token \<Rightarrow> string \<Rightarrow> js_error + json" where
  "verify_token mac now tok secret =
     (if tok_signature tok \<noteq> mac secret (tok_claims tok) (tok_expires tok) then Inl InvalidToken
      else if tok_expires tok \<le> now then Inl ExpiredToken
      else Inr (tok_claims tok))"

text \<open>
  Modelled from the spec: the two calls as the handlers make them, at the time \<open>now\<close>.
  The handlers pass the token as a string; \<open>to_wire\<close> and \<open>of_wire\<close> are the writing and
  the reading of a token as a string. \<open>expiresIn\<close> is the option the caller passes, of
  which the specification knows the 8 hours.
\<close>

definition jwt_sign_spec ::
  "(string \<Rightarrow> json \<Rightarrow> int \<Rightarrow> string) \<Rightarrow> (token \<Rightarrow> string) \<Rightarrow> int
     \<Rightarrow> json \<Rightarrow> string \<Rightarrow> string \<Rightarrow> js_error + string" where
  "jwt_sign_spec mac to_wire now payload secret expiresIn =
     (if expiresIn = ''8h'' then Inr (to_wire (issue mac now payload secret))
      else Inl (mk_error ''Error'' ''expiresIn is not the 8 hours of the specification''))"

definition jwt_verify_spec ::
  "(string \<Rightarrow> json \<Rightarrow> int \<Rightarrow> string) \<Rightarrow> (string \<Rightarrow> token option) \<Rightarrow> int
     \<Rightarrow> string \<Rightarrow> string \<Rightarrow> js_error + json" where
  "jwt_verify_spec mac of_wire now token secret =
     (case of_wire token of
        None \<Rightarrow> Inl InvalidToken
      | Some tok \<Rightarrow> verify_token mac now tok secret)"

text \<open>The claims \<open>loginHandler\<close> signs.\<close>

definition admin_claims :: json where
  "admin_claims = JObj [(''user'', JStr ''admin'')]"

section \<open>Entries of the list that deserialize\<close>

text \<open>
  A stored string is a valid record when \<open>JSON.parse\<close> returns an object for it that
  survives the filter of the handler, and malformed otherwise.
\<close>

definition deserializable :: "(string \<Rightarrow> js_error + json) \<Rightarrow> string \<Rightarrow> bool" where
  "deserializable JSON_parse s = (case JSON_parse s of Inr v \<Rightarrow> v \<noteq> JNull | Inl e \<Rightarrow> False)"

definition record_of :: "(string \<Rightarrow> js_error + json) \<Rightarrow> string \<Rightarrow> json" where
  "record_of JSON_parse s = (case JSON_parse s of Inr v \<Rightarrow> v | Inl e \<Rightarrow> JNull)"

section \<open>The list of the store\<close>

text \<open>
  The list under the key \<open>emails\<close>, as the comments of the two handlers describe the
  commands they call: \<open>lPush\<close> adds to the beginning of the list, \<open>lRange\<close> reads the
  entries from \<open>start\<close> to \<open>stop\<close>, counted from the beginning.
\<close>

definition store_lPush :: "string list \<Rightarrow> string \<Rightarrow> string list" where
  "store_lPush xs v = v # xs"

definition store_lRange :: "string list \<Rightarrow> int \<Rightarrow> int \<Rightarrow> string list" where
  "store_lRange xs start stop = take (nat (stop - start + 1)) (drop (nat start) xs)"

section \<open>Stand-ins for the library calls, to evaluate the handlers on examples\<close>

text \<open>A parser that knows two stored strings and rejects every other one.\<close>

definition demo_parse :: "string \<Rightarrow> js_error + json" where
  "demo_parse s =
     (if s = ''older'' then Inr (JObj [(''id'', JStr ''email-1'')])
      else if s = ''newer'' then Inr (JObj [(''id'', JStr ''email-2'')])
      else Inl (mk_error ''SyntaxError'' ''Unexpected token''))"

text \<open>A token check that accepts the token \<open>good\<close> under the secret \<open>s3cret\<close>.\<close>

definition demo_verify :: "string \<Rightarrow> string \<Rightarrow> js_error + json" where
  "demo_verify token secret =
     (if token = ''good'' \<and> secret = ''s3cret'' then Inr (JObj [(''user'', JStr ''admin'')])
      else Inl (mk_error ''JsonWebTokenError'' ''invalid token''))"

text \<open>A client of a store that holds the list \<open>xs\<close> under \<open>emails\<close>.\<close>

definition demo_lRange :: "string list \<Rightarrow> unit \<Rightarrow> string \<Rightarrow> int \<Rightarrow> int \<Rightarrow> js_error + string list" where
  "demo_lRange xs c key start stop =
     (if key = ''emails'' then Inr (store_lRange xs start stop) else Inr [])"

text \<open>The webhook of the examples: one event, accepted under one signature and secret.\<close>

definition demo_event :: json where
  "demo_event =
     JObj [(''type'', JStr ''email.received''),
           (''data'', JObj [(''from'', JStr ''ann@example.org''), (''subject'', JNull)])]"

definition demo_webhook_verify :: "string \<Rightarrow> webhook_headers \<Rightarrow> string \<Rightarrow> js_error + json" where
  "demo_webhook_verify rawBody headers secret =
     (if rawBody = ''payload'' \<and> h_svix_signature headers = Some ''v1,good'' \<and> secret = ''whsec''
      then Inr demo_event
      else Inl (mk_error ''Error'' ''No matching signature found''))"

definition demo_webhook_request :: webhook_request where
  "demo_webhook_request =
     \<lparr>wh_method = ''POST'', wh_raw = Inr ''payload'', wh_body = None,
      svix_signature = Some ''v1,good'', svix_id = Some ''msg_1'',
      svix_timestamp = Some ''1700000000''\<rparr>"

definition demo_lPush :: "unit \<Rightarrow> string \<Rightarrow> string \<Rightarrow> js_error + int" where
  "demo_lPush c key v = Inr 1"

text \<open>A serialiser that shows the string fields of an object.\<close>

definition demo_stringify :: "json \<Rightarrow> string" where
  "demo_stringify j =
     (case j of
        JObj kvs \<Rightarrow>
          concat (map (\<lambda>(k, v). k @ ''='' @ (case v of JStr x \<Rightarrow> x | _ \<Rightarrow> ''?'') @ '';'') kvs)
      | _ \<Rightarrow> ''?'')"

text \<open>A provider that accepts every message.\<close>

definition demo_send :: "outbound \<Rightarrow> js_error + send_reply" where
  "demo_send m = Inr \<lparr>reply_data = Some (JObj [(''id'', JStr ''re_1'')]), reply_error = None\<rparr>"

definition demo_mail :: "string \<Rightarrow> string \<Rightarrow> string \<Rightarrow> json" where
  "demo_mail to subject html =
     JObj [(''to'', JStr to), (''subject'', JStr subject), (''html'', JStr html)]"

text \<open>A client of a store that holds a string, not a list, under \<open>emails\<close>.\<close>

definition demo_wrongtype :: "unit \<Rightarrow> string \<Rightarrow> int \<Rightarrow> int \<Rightarrow> js_error + string list" where
  "demo_wrongtype c key start stop =
     Inl (mk_error ''Error''
       ''WRONGTYPE Operation against a key holding the wrong kind of value'')"

text \<open>A signature scheme and a wire form for the one token of the example.\<close>

definition demo_mac :: "string \<Rightarrow> json \<Rightarrow> int \<Rightarrow> string" where
  "demo_mac secret claims expires = ''hmac-'' @ secret"

definition demo_to_wire :: "token \<Rightarrow> string" where
  "demo_to_wire tok = ''header.payload.signature''"

definition demo_of_wire :: "string \<Rightarrow> token option" where
  "demo_of_wire s =
     (if s = ''header.payload.signature'' then Some (issue demo_mac 1000 admin_claims ''s3cret'')
      else None)"

text \<open>A request to evaluate the limiter on.\<close>

definition demo_request :: rate_request where
  "demo_request = \<lparr>x_forwarded_for = Some ''10.0.0.7, 10.0.0.1'', x_real_ip = None,
                    remoteAddress = None, url = ''/api/login''\<rparr>"

section \<open>Theorems\<close>

subsection \<open>The matcher decides the language\<close>

lemma nullable_lang: "nullable r \<longleftrightarrow> [] \<in> lang r"
  by (induction r) (auto simp add: glue_def intro: iter_nil)

lemma glue_Cons:
  "c # w \<in> glue A B \<longleftrightarrow> (\<exists>u v. w = u @ v \<and> c # u \<in> A \<and> v \<in> B) \<or> ([] \<in> A \<and> c # w \<in> B)"
  unfolding glue_def by (auto simp add: Cons_eq_append_conv) 

lemma iter_Cons_D:
  "x \<in> iter A \<Longrightarrow> x = c # w \<Longrightarrow> \<exists>u v. w = u @ v \<and> c # u \<in> A \<and> v \<in> iter A"
proof (induction arbitrary: w rule: iter.induct)
  case iter_nil
  then show ?case by simp
next
  case (iter_step u v)
  show ?case
  proof (cases u)
    case Nil
    with iter_step show ?thesis by simp
  next
    case (Cons a u')
    with iter_step.prems iter_step.hyps show ?thesis by auto
  qed
qed

lemma iter_Cons:
  "c # w \<in> iter A \<longleftrightarrow> (\<exists>u v. w = u @ v \<and> c # u \<in> A \<and> v \<in> iter A)"
proof
  assume "c # w \<in> iter A"
  then show "\<exists>u v. w = u @ v \<and> c # u \<in> A \<and> v \<in> iter A" by (rule iter_Cons_D) simp
next
  assume "\<exists>u v. w = u @ v \<and> c # u \<in> A \<and> v \<in> iter A"
  then obtain u v where "w = u @ v" "c # u \<in> A" "v \<in> iter A" by blast
  then show "c # w \<in> iter A" using iter_step [of "c # u" A v] by simp
qed

lemma lang_deriv: "w \<in> lang (deriv c r) \<longleftrightarrow> c # w \<in> lang r"
proof (induction r arbitrary: w)
  case (Seq r s)
  then show ?case by (auto simp add: glue_Cons nullable_lang) (auto simp add: glue_def)
next
  case (Star r)
  then show ?case by (auto simp add: iter_Cons) (auto simp add: glue_def)
qed auto

lemma matches_lang: "matches r s \<longleftrightarrow> s \<in> lang r"
  by (induction s arbitrary: r) (simp_all add: nullable_lang lang_deriv)

subsection \<open>The rate limiter\<close>

lemma ceil_div_1000_ceiling: "ceil_div_1000 x = \<lceil>real_of_int x / 1000\<rceil>"
proof -
  have "\<lceil>real_of_int x / 1000\<rceil> = - \<lfloor>real_of_int (- x) / real_of_int 1000\<rfloor>"
    by (simp add: ceiling_def)
  also have "\<dots> = - ((- x) div 1000)"
    by (simp only: floor_divide_of_int_eq)
  finally show ?thesis by (simp add: ceil_div_1000_def)
qed

lemma check_first:
  assumes "case st (rate_key req) of None \<Rightarrow> True | Some r \<Rightarrow> resetTime r < now"
  shows "checkRateLimit req \<lparr>opt_windowMs = Some w, opt_max = Some N\<rparr> now0 now st =
           (\<lparr>allowed = True, remaining = N - 1, res_resetTime = now + w, retryAfter = None\<rparr>,
            (cleanup now0 st)(rate_key req \<mapsto> \<lparr>count = 1, resetTime = now + w\<rparr>))"
  using assms by (auto simp add: checkRateLimit_def cleanup_def Let_def split: option.splits)

lemma check_live_below:
  assumes "st (rate_key req) = Some \<lparr>count = c, resetTime = R\<rparr>"
    and "now0 \<le> R" and "now \<le> R" and "c < N"
  shows "checkRateLimit req \<lparr>opt_windowMs = Some w, opt_max = Some N\<rparr> now0 now st =
           (\<lparr>allowed = True, remaining = N - (c + 1), res_resetTime = R, retryAfter = None\<rparr>,
            (cleanup now0 st)(rate_key req \<mapsto> \<lparr>count = c + 1, resetTime = R\<rparr>))"
  using assms by (auto simp add: checkRateLimit_def cleanup_def Let_def split: option.splits)

lemma check_live_full:
  assumes "st (rate_key req) = Some \<lparr>count = c, resetTime = R\<rparr>"
    and "now0 \<le> R" and "now \<le> R" and "N \<le> c"
  shows "checkRateLimit req \<lparr>opt_windowMs = Some w, opt_max = Some N\<rparr> now0 now st =
           (\<lparr>allowed = False, remaining = 0, res_resetTime = R,
             retryAfter = Some (ceil_div_1000 (R - now))\<rparr>,
            cleanup now0 st)"
  using assms by (auto simp add: checkRateLimit_def cleanup_def Let_def split: option.splits)

lemma serve_append:
  "serve req opts (ts @ us) st =
     (let (rs, st') = serve req opts ts st; (rs', st'') = serve req opts us st'
      in (rs @ rs', st''))"
  by (induction ts arbitrary: st) (auto simp add: Let_def split: prod.splits)

text \<open>
  While the window is live and the limit is not reached, every call is allowed and adds
  one to the count.
\<close>

lemma serve_live:
  assumes "st (rate_key req) = Some \<lparr>count = c, resetTime = R\<rparr>"
    and "\<forall>(now0, now) \<in> set ts. now0 \<le> R \<and> now \<le> R"
    and "c + int (length ts) \<le> N"
  shows "map allowed (fst (serve req \<lparr>opt_windowMs = Some w, opt_max = Some N\<rparr> ts st))
           = replicate (length ts) True
         \<and> snd (serve req \<lparr>opt_windowMs = Some w, opt_max = Some N\<rparr> ts st) (rate_key req)
           = Some \<lparr>count = c + int (length ts), resetTime = R\<rparr>"
  using assms
proof (induction ts arbitrary: st c)
  case Nil
  then show ?case by simp
next
  case (Cons t ts)
  obtain now0 now where t: "t = (now0, now)" by (cases t)
  from Cons.prems t have b: "now0 \<le> R" "now \<le> R" "c < N" by auto
  let ?st = "(cleanup now0 st)(rate_key req \<mapsto> \<lparr>count = c + 1, resetTime = R\<rparr>)"
  have step: "checkRateLimit req \<lparr>opt_windowMs = Some w, opt_max = Some N\<rparr> now0 now st =
           (\<lparr>allowed = True, remaining = N - (c + 1), res_resetTime = R, retryAfter = None\<rparr>, ?st)"
    using Cons.prems(1) b by (rule check_live_below)
  have "?st (rate_key req) = Some \<lparr>count = c + 1, resetTime = R\<rparr>" by simp
  moreover have "\<forall>(now0, now) \<in> set ts. now0 \<le> R \<and> now \<le> R" using Cons.prems(2) by simp
  moreover have "(c + 1) + int (length ts) \<le> N" using Cons.prems(3) by simp
  ultimately have IH:
    "map allowed (fst (serve req \<lparr>opt_windowMs = Some w, opt_max = Some N\<rparr> ts ?st))
       = replicate (length ts) True
     \<and> snd (serve req \<lparr>opt_windowMs = Some w, opt_max = Some N\<rparr> ts ?st) (rate_key req)
       = Some \<lparr>count = (c + 1) + int (length ts), resetTime = R\<rparr>"
    by (rule Cons.IH)
  show ?case using IH by (auto simp add: t step ac_simps split: prod.splits)
qed

text \<open>
  Claim C2, for a limit of at least one. A caller whose key has no record, or an expired
  one, calls at \<open>now\<close>; the window then ends at \<open>now + w\<close>. With \<open>N - 1\<close> further calls
  inside the window (\<open>ts\<close>) the first \<open>N\<close> calls are all allowed and leave the count at
  \<open>N\<close>. One more call inside the window, at \<open>b\<close>, is rejected with
  \<open>retryAfter = ceil ((now + w - b) / 1000)\<close> and leaves the record as it was. A call
  after the window, at \<open>c\<close>, is allowed again and the record is reset to a count of 1 and
  a window ending at \<open>c + w\<close>.
\<close>

theorem rate_limit_window:
  assumes N: "1 \<le> N"
    and first: "case st (rate_key req) of None \<Rightarrow> True | Some r \<Rightarrow> resetTime r < now"
    and len: "int (length ts) = N - 1"
    and live: "\<forall>(t0, t) \<in> set ts. t0 \<le> now + w \<and> t \<le> now + w"
    and over: "q \<le> now + w \<and> b \<le> now + w"
    and late: "now + w < c"
  shows "map allowed (fst (serve req \<lparr>opt_windowMs = Some w, opt_max = Some N\<rparr>
                              ((p, now) # ts) st))
           = replicate (nat N) True
       \<and> snd (serve req \<lparr>opt_windowMs = Some w, opt_max = Some N\<rparr> ((p, now) # ts) st)
             (rate_key req)
           = Some \<lparr>count = N, resetTime = now + w\<rparr>
       \<and> map allowed (fst (serve req \<lparr>opt_windowMs = Some w, opt_max = Some N\<rparr>
                              ((p, now) # ts @ [(q, b)]) st))
           = replicate (nat N) True @ [False]
       \<and> retryAfter (last (fst (serve req \<lparr>opt_windowMs = Some w, opt_max = Some N\<rparr>
                                    ((p, now) # ts @ [(q, b)]) st)))
           = Some \<lceil>real_of_int ((now + w) - b) / 1000\<rceil>
       \<and> snd (serve req \<lparr>opt_windowMs = Some w, opt_max = Some N\<rparr>
                  ((p, now) # ts @ [(q, b)]) st) (rate_key req)
           = Some \<lparr>count = N, resetTime = now + w\<rparr>
       \<and> map allowed (fst (serve req \<lparr>opt_windowMs = Some w, opt_max = Some N\<rparr>
                              ((p, now) # ts @ [(q, b), (r, c)]) st))
           = replicate (nat N) True @ [False, True]
       \<and> snd (serve req \<lparr>opt_windowMs = Some w, opt_max = Some N\<rparr>
                  ((p, now) # ts @ [(q, b), (r, c)]) st) (rate_key req)
           = Some \<lparr>count = 1, resetTime = c + w\<rparr>"
proof -
  let ?k = "rate_key req"
  let ?o = "\<lparr>opt_windowMs = Some w, opt_max = Some N\<rparr>"
  let ?st1 = "(cleanup p st)(?k \<mapsto> \<lparr>count = 1, resetTime = now + w\<rparr>)"
  have s1: "checkRateLimit req ?o p now st =
      (\<lparr>allowed = True, remaining = N - 1, res_resetTime = now + w, retryAfter = None\<rparr>, ?st1)"
    using first by (rule check_first)
  obtain rs st2 where run: "serve req ?o ts ?st1 = (rs, st2)"
    by (cases "serve req ?o ts ?st1")
  have "?st1 ?k = Some \<lparr>count = 1, resetTime = now + w\<rparr>" by simp
  moreover have "1 + int (length ts) \<le> N" using len by simp
  ultimately have "map allowed (fst (serve req ?o ts ?st1)) = replicate (length ts) True
      \<and> snd (serve req ?o ts ?st1) ?k
          = Some \<lparr>count = 1 + int (length ts), resetTime = now + w\<rparr>"
    using live by (intro serve_live) auto
  then have rs: "map allowed rs = replicate (length ts) True"
    and st2: "st2 ?k = Some \<lparr>count = N, resetTime = now + w\<rparr>"
    using run len by simp_all
  have nN: "Suc (length ts) = nat N" using len N by linarith
  have s2: "checkRateLimit req ?o q b st2 =
      (\<lparr>allowed = False, remaining = 0, res_resetTime = now + w,
        retryAfter = Some (ceil_div_1000 ((now + w) - b))\<rparr>, cleanup q st2)"
    using st2 over by (intro check_live_full) auto
  have st3: "cleanup q st2 ?k = Some \<lparr>count = N, resetTime = now + w\<rparr>"
    using st2 over by (simp add: cleanup_def)
  have s3: "checkRateLimit req ?o r c (cleanup q st2) =
      (\<lparr>allowed = True, remaining = N - 1, res_resetTime = c + w, retryAfter = None\<rparr>,
       (cleanup r (cleanup q st2))(?k \<mapsto> \<lparr>count = 1, resetTime = c + w\<rparr>))"
    using st3 late by (intro check_first) simp
  have c1: "map allowed (fst (serve req ?o ((p, now) # ts) st)) = replicate (nat N) True"
    using rs nN by (simp add: s1 run flip: replicate_Suc)
  have c2: "snd (serve req ?o ((p, now) # ts) st) ?k
              = Some \<lparr>count = N, resetTime = now + w\<rparr>"
    using st2 by (simp add: s1 run)
  have c3: "map allowed (fst (serve req ?o ((p, now) # ts @ [(q, b)]) st))
              = replicate (nat N) True @ [False]"
    using rs nN by (simp add: s1 run serve_append s2 flip: replicate_Suc)
  have c4: "retryAfter (last (fst (serve req ?o ((p, now) # ts @ [(q, b)]) st)))
              = Some \<lceil>real_of_int ((now + w) - b) / 1000\<rceil>"
    by (simp add: s1 run serve_append s2 ceil_div_1000_ceiling)
  have c5: "snd (serve req ?o ((p, now) # ts @ [(q, b)]) st) ?k
              = Some \<lparr>count = N, resetTime = now + w\<rparr>"
    using st3 by (simp add: s1 run serve_append s2)
  have c6: "map allowed (fst (serve req ?o ((p, now) # ts @ [(q, b), (r, c)]) st))
              = replicate (nat N) True @ [False, True]"
    using rs nN by (simp add: s1 run serve_append s2 s3 flip: replicate_Suc)
  have c7: "snd (serve req ?o ((p, now) # ts @ [(q, b), (r, c)]) st) ?k
              = Some \<lparr>count = 1, resetTime = c + w\<rparr>"
    by (simp add: s1 run serve_append s2 s3)
  from c1 c2 c3 c4 c5 c6 c7 show ?thesis by blast
qed

theorem rate_limit_window_witness:
  "map allowed (fst (serve demo_request \<lparr>opt_windowMs = Some 900000, opt_max = Some 2\<rparr>
                      [(0, 0), (10, 10), (20, 21)] Map.empty))
     = [True, True, False]
   \<and> retryAfter (last (fst (serve demo_request \<lparr>opt_windowMs = Some 900000, opt_max = Some 2\<rparr>
                      [(0, 0), (10, 10), (20, 21)] Map.empty)))
     = Some 900
   \<and> map allowed (fst (serve demo_request \<lparr>opt_windowMs = Some 900000, opt_max = Some 2\<rparr>
                      [(0, 0), (10, 10), (20, 21), (900001, 900001)] Map.empty))
     = [True, True, False, True]
   \<and> snd (serve demo_request \<lparr>opt_windowMs = Some 900000, opt_max = Some 2\<rparr>
                      [(0, 0), (10, 10), (20, 21), (900001, 900001)] Map.empty)
         (rate_key demo_request)
     = Some \<lparr>count = 1, resetTime = 1800001\<rparr>"
proof -
  have h1: "(1::int) \<le> 2" by simp
  have h2: "case Map.empty (rate_key demo_request) of None \<Rightarrow> True
            | Some r \<Rightarrow> resetTime r < (0::int)" by simp
  have h3: "int (length [(10::int, 10::int)]) = 2 - 1" by simp
  have h4: "\<forall>(t0, t) \<in> set [(10::int, 10::int)]. t0 \<le> 0 + 900000 \<and> t \<le> 0 + 900000" by simp
  have h5: "(20::int) \<le> 0 + 900000 \<and> (21::int) \<le> 0 + 900000" by simp
  have h6: "(0::int) + 900000 < 900001" by simp
  have n2: "replicate (nat 2) True = [True, True]" by (simp add: numeral_2_eq_2)
  have ce: "\<lceil>real_of_int (0 + 900000 - 21) / 1000\<rceil> = (900::int)"
    by (simp add: ceiling_eq_iff)
  show ?thesis
    using rate_limit_window [OF h1 h2 h3 h4 h5 h6, where p = 0 and r = 900001] n2 ce by simp
qed

text \<open>
  With a limit of zero the very first call of a caller is allowed: the branch that
  creates the record does not look at the limit.
\<close>

theorem rate_limit_zero_counterexample:
  "map allowed (fst (serve demo_request \<lparr>opt_windowMs = Some 900000, opt_max = Some 0\<rparr>
                      [(0, 0)] Map.empty))
     \<noteq> replicate (nat 0) True @ [False]"
  by (simp add: checkRateLimit_def cleanup_def Let_def)

subsection \<open>The password check\<close>

text \<open>
  Claim C3. \<open>constantTimeCompare\<close> always returns a boolean (it never throws); the
  boolean is false when the two strings differ in length, false when the two byte
  strings differ at some position, false when \<open>timingSafeEqual\<close> throws, and true only
  when the two byte strings are equal.
\<close>

theorem constantTimeCompare_sound:
  "(\<exists>r. constantTimeCompare a b = Inr r)
   \<and> (length a \<noteq> length b \<longrightarrow> constantTimeCompare a b = Inr False)
   \<and> ((\<exists>i < length (buffer_from_utf8 a). buffer_from_utf8 a ! i \<noteq> buffer_from_utf8 b ! i)
        \<longrightarrow> constantTimeCompare a b = Inr False)
   \<and> ((\<exists>e. timingSafeEqual (buffer_from_utf8 a) (buffer_from_utf8 b) = Inl e)
        \<longrightarrow> constantTimeCompare a b = Inr False)
   \<and> (constantTimeCompare a b = Inr True \<longrightarrow> buffer_from_utf8 a = buffer_from_utf8 b)"
  by (auto simp add: constantTimeCompare_def timingSafeEqual_def split: sum.splits)

theorem constantTimeCompare_sound_witness:
  "length ''ab'' \<noteq> length ''abc'' \<and> constantTimeCompare ''ab'' ''abc'' = Inr False
   \<and> (\<exists>i < length (buffer_from_utf8 ''abc'').
         buffer_from_utf8 ''abc'' ! i \<noteq> buffer_from_utf8 ''abd'' ! i)
   \<and> constantTimeCompare ''abc'' ''abd'' = Inr False
   \<and> (\<exists>e. timingSafeEqual (buffer_from_utf8 [CHR 0xE9]) (buffer_from_utf8 ''a'') = Inl e)
   \<and> constantTimeCompare [CHR 0xE9] ''a'' = Inr False
   \<and> constantTimeCompare ''abc'' ''abc'' = Inr True
   \<and> buffer_from_utf8 ''abc'' = buffer_from_utf8 ''abc''"
proof -
  have h1: "length ''ab'' \<noteq> length ''abc''" by simp
  have h2: "\<exists>i < length (buffer_from_utf8 ''abc'').
              buffer_from_utf8 ''abc'' ! i \<noteq> buffer_from_utf8 ''abd'' ! i"
    by (rule exI [of _ 2]) (simp add: buffer_from_utf8_def utf8_unit_def)
  have h3: "\<exists>e. timingSafeEqual (buffer_from_utf8 [CHR 0xE9]) (buffer_from_utf8 ''a'') = Inl e"
    by (simp add: timingSafeEqual_def buffer_from_utf8_def utf8_unit_def)
  have h4: "constantTimeCompare ''abc'' ''abc'' = Inr True"
    by (simp add: constantTimeCompare_def timingSafeEqual_def)
  show ?thesis
    using h1 h2 h3 h4
      constantTimeCompare_sound [of "''ab''" "''abc''"]
      constantTimeCompare_sound [of "''abc''" "''abd''"]
      constantTimeCompare_sound [of "[CHR 0xE9]" "''a''"]
      constantTimeCompare_sound [of "''abc''" "''abc''"]
    by blast
qed

subsection \<open>The language of the address pattern\<close>

lemma lang_lit: "lang (lit s) = {s}"
  by (induction s) (auto simp add: lit_def glue_def)

lemma lang_seqs_Cons: "lang (seqs (r # rs)) = glue (lang r) (lang (seqs rs))"
  by (simp add: seqs_def)

lemma lang_seqs_Nil: "lang (seqs []) = {[]}"
  by (simp add: seqs_def)

lemma iter_units:
  assumes "w \<in> iter {[c] | c. P c}"
  shows "\<forall>c \<in> set w. P c"
  using assms by (induction rule: iter.induct) auto

lemma units_iter: "\<forall>c \<in> set w. P c \<Longrightarrow> w \<in> iter {[c] | c. P c}"
proof (induction w)
  case Nil
  show ?case by (rule iter_nil)
next
  case (Cons a w)
  then have "[a] \<in> {[c] | c. P c}" "w \<in> iter {[c] | c. P c}" by auto
  then have "[a] @ w \<in> iter {[c] | c. P c}" by (rule iter_step)
  then show ?case by simp
qed

lemma lang_Plus_NoneOf:
  "lang (Plus (NoneOf cs)) = {w. w \<noteq> [] \<and> (\<forall>c \<in> set w. c \<notin> set cs)}"
proof (rule set_eqI)
  fix w
  show "w \<in> lang (Plus (NoneOf cs)) \<longleftrightarrow> w \<in> {w. w \<noteq> [] \<and> (\<forall>c \<in> set w. c \<notin> set cs)}"
  proof (cases w)
    case Nil
    then show ?thesis by (simp add: Plus_def glue_def)
  next
    case (Cons a v)
    have "v \<in> iter {[c] | c. c \<notin> set cs} \<longleftrightarrow> (\<forall>c \<in> set v. c \<notin> set cs)"
      using iter_units [of v "\<lambda>c. c \<notin> set cs"] units_iter [of v "\<lambda>c. c \<notin> set cs"] by blast
    then show ?thesis using Cons by (simp add: Plus_def glue_Cons)
  qed
qed

lemma glue_unit: "glue A {[]} = A"
  by (auto simp add: glue_def)

lemma glue5:
  "s \<in> glue A (glue {x} (glue B (glue {y} C))) \<longleftrightarrow>
     (\<exists>l d t. s = l @ x @ d @ y @ t \<and> l \<in> A \<and> d \<in> B \<and> t \<in> C)"
  unfolding glue_def by blast

lemma plain_lang: "lang (Plus (NoneOf (whitespace @ ''@''))) = {w. plain w}"
  unfolding lang_Plus_NoneOf by (auto simp add: plain_def is_space_def)

lemma emailRegex_lang:
  "matches emailRegex s \<longleftrightarrow>
     (\<exists>l d t. s = l @ ''@'' @ d @ ''.'' @ t \<and> plain l \<and> plain d \<and> plain t)"
  unfolding matches_lang emailRegex_def lang_seqs_Cons lang_seqs_Nil plain_lang lang_lit
    glue_unit glue5
  by simp

lemma filter_dropWhile_not: "filter (\<lambda>c. \<not> P c) (dropWhile P xs) = filter (\<lambda>c. \<not> P c) xs"
  by (induction xs) auto

lemma filter_trim: "filter (\<lambda>c. \<not> is_space c) (trim s) = filter (\<lambda>c. \<not> is_space c) s"
  by (simp add: trim_def filter_dropWhile_not flip: rev_filter)

lemma at_dot_not_space: "\<not> is_space CHR ''@''" "\<not> is_space CHR ''.''"
  by (simp_all add: is_space_def whitespace_def)

lemma plain_filter: "plain w \<Longrightarrow> filter (\<lambda>c. \<not> is_space c) w = w"
  by (simp add: plain_def)

lemma tail_after_last:
  "set (takeWhile (\<lambda>c. c \<noteq> a) (rev (xs @ a # ys))) \<subseteq> set ys"
  by (auto simp add: takeWhile_append dest: set_takeWhileD)

lemma tail_no_sep:
  "a \<notin> set ys \<Longrightarrow> takeWhile (\<lambda>c. c \<noteq> a) (rev (xs @ a # ys)) = rev ys"
  by (simp add: takeWhile_append)

lemma domain_needs_dot:
  assumes m: "matches emailRegex (trim (l @ ''@'' @ d))"
  shows "CHR ''.'' \<in> set d"
proof -
  let ?ns = "\<lambda>c. \<not> is_space c"
  from m obtain l' d' t' where
    X: "trim (l @ ''@'' @ d) = l' @ ''@'' @ d' @ ''.'' @ t'"
    and pl: "plain l'" "plain d'" "plain t'"
    unfolding emailRegex_lang by blast
  have "filter ?ns (l' @ ''@'' @ d' @ ''.'' @ t') = l' @ ''@'' @ d' @ ''.'' @ t'"
    using pl by (simp add: plain_filter at_dot_not_space)
  then have eq: "l' @ CHR ''@'' # (d' @ ''.'' @ t') = filter ?ns l @ CHR ''@'' # filter ?ns d"
    using filter_trim [of "l @ ''@'' @ d"] X by (simp add: at_dot_not_space)
  have "CHR ''@'' \<notin> set (d' @ ''.'' @ t')" using pl by (auto simp add: plain_def)
  then have "takeWhile (\<lambda>c. c \<noteq> CHR ''@'') (rev (l' @ CHR ''@'' # (d' @ ''.'' @ t')))
               = rev (d' @ ''.'' @ t')"
    by (rule tail_no_sep)
  then have "set (d' @ ''.'' @ t') \<subseteq> set (filter ?ns d)"
    using tail_after_last [of "CHR ''@''" "filter ?ns l" "filter ?ns d"] eq by (metis set_rev)
  then show ?thesis by auto
qed

subsection \<open>Trimming\<close>

lemma last_dropWhile: "dropWhile P xs \<noteq> [] \<Longrightarrow> last (dropWhile P xs) = last xs"
  by (induction xs) (auto split: if_splits)

lemma trim_fixed:
  assumes "s = [] \<or> (\<not> is_space (hd s) \<and> \<not> is_space (last s))"
  shows "trim s = s"
proof (cases "s = []")
  case True
  then show ?thesis by (simp add: trim_def)
next
  case False
  with assms have h: "\<not> is_space (hd s)" and l: "\<not> is_space (last s)" by auto
  have a: "dropWhile is_space s = s" using False h by (cases s) auto
  have "hd (rev s) = last s" using False by (simp add: hd_rev)
  moreover have "rev s \<noteq> []" using False by simp
  ultimately have b: "dropWhile is_space (rev s) = rev s"
    using l by (simp add: dropWhile_eq_self_iff)
  show ?thesis by (simp add: trim_def a b)
qed

lemma trim_ends:
  assumes "trim s \<noteq> []"
  shows "\<not> is_space (hd (trim s)) \<and> \<not> is_space (last (trim s))"
proof -
  let ?xs = "dropWhile is_space s"
  let ?zs = "dropWhile is_space (rev ?xs)"
  have t: "trim s = rev ?zs" by (simp add: trim_def)
  have zs: "?zs \<noteq> []" using assms t by simp
  then have xs: "?xs \<noteq> []" by (cases "?xs = []") simp_all
  have "\<not> is_space (hd ?zs)" using zs by (rule hd_dropWhile)
  then have l: "\<not> is_space (last (trim s))" using zs by (simp add: t last_rev)
  have "last ?zs = last (rev ?xs)" using zs by (rule last_dropWhile)
  also have "\<dots> = hd ?xs" using xs by (simp add: last_rev)
  finally have "hd (trim s) = hd ?xs" using zs by (simp add: t hd_rev)
  moreover have "\<not> is_space (hd ?xs)" using xs by (rule hd_dropWhile)
  ultimately show ?thesis using l by simp
qed

lemma trim_idem: "trim (trim s) = trim s"
  using trim_ends [of s] by (intro trim_fixed) blast


subsection \<open>Reading the list\<close>

lemma starts_with_append: "starts_with (p @ s) p"
  by (induction p) auto

lemma getEmailsHandler_authorised:
  assumes "JWT_SECRET = Some secret" and "secret \<noteq> []"
    and "jwt_verify (takeWhile (\<lambda>c. c \<noteq> CHR '' '') tok) secret = Inr claims"
  shows "getEmailsHandler jwt_verify (Inr c) lRange JSON_parse JWT_SECRET NODE_ENV ''GET''
           (Some (''Bearer '' @ tok))
         = (case lRange c ''emails'' 0 99 of
              Inr found \<Rightarrow> respond 200 (JArr (rev (parse_emails JSON_parse found)))
            | Inl kvError \<Rightarrow>
                if includes_str (err_message kvError) ''WRONGTYPE''
                   \<or> includes_str (err_message kvError) ''no such key''
                then respond 200 (JArr [])
                else get_emails_catch NODE_ENV kvError)"
proof -
  have "starts_with (''Bearer '' @ tok) ''Bearer ''" by (rule starts_with_append)
  moreover have "includes_str [] ''WRONGTYPE'' = False" "includes_str [] ''no such key'' = False"
    by simp_all
  ultimately show ?thesis using assms
    by (auto simp add: getEmailsHandler_def parse_emails_def Let_def split: sum.splits)
qed

lemma parse_emails_append:
  "parse_emails P (xs @ ys) = parse_emails P xs @ parse_emails P ys"
  by (simp add: parse_emails_def)

lemma parse_emails_valid:
  "\<forall>s \<in> set xs. deserializable P s \<Longrightarrow> parse_emails P xs = map (record_of P) xs"
  by (induction xs) (auto simp add: parse_emails_def deserializable_def record_of_def split: sum.splits)

lemma parse_emails_bad: "\<not> deserializable P s \<Longrightarrow> parse_emails P [s] = []"
  by (auto simp add: parse_emails_def deserializable_def split: sum.splits)

text \<open>
  Claim C6. For a request that passes the authentication and gets a client: when the
  list is empty or was never created (\<open>lRange\<close> returns no entries) the response is
  200 with an empty array; when \<open>lRange\<close> throws the store's WRONGTYPE error the
  response is 200 with an empty array as well; and when the entries read are valid
  records but for one malformed entry, the response is 200 with exactly the valid
  records, none missing and none added.
\<close>

theorem list_read_tolerant:
  assumes "JWT_SECRET = Some secret" and "secret \<noteq> []"
    and "jwt_verify (takeWhile (\<lambda>c. c \<noteq> CHR '' '') tok) secret = Inr claims"
  shows "(lRange c ''emails'' 0 99 = Inr [] \<longrightarrow>
            getEmailsHandler jwt_verify (Inr c) lRange JSON_parse JWT_SECRET NODE_ENV ''GET''
              (Some (''Bearer '' @ tok)) = respond 200 (JArr []))
       \<and> (\<forall>e. lRange c ''emails'' 0 99 = Inl e \<and> includes_str (err_message e) ''WRONGTYPE'' \<longrightarrow>
            getEmailsHandler jwt_verify (Inr c) lRange JSON_parse JWT_SECRET NODE_ENV ''GET''
              (Some (''Bearer '' @ tok)) = respond 200 (JArr []))
       \<and> (\<forall>pre bad post.
            lRange c ''emails'' 0 99 = Inr (pre @ [bad] @ post)
            \<and> (\<forall>s \<in> set (pre @ post). deserializable JSON_parse s)
            \<and> \<not> deserializable JSON_parse bad \<longrightarrow>
            (\<exists>ys. getEmailsHandler jwt_verify (Inr c) lRange JSON_parse JWT_SECRET NODE_ENV ''GET''
                     (Some (''Bearer '' @ tok)) = respond 200 (JArr ys)
                 \<and> mset ys = mset (map (record_of JSON_parse) (pre @ post))
                 \<and> length ys = length (pre @ post)))"
proof -
  have H: "getEmailsHandler jwt_verify (Inr c) lRange JSON_parse JWT_SECRET NODE_ENV ''GET''
           (Some (''Bearer '' @ tok))
         = (case lRange c ''emails'' 0 99 of
              Inr found \<Rightarrow> respond 200 (JArr (rev (parse_emails JSON_parse found)))
            | Inl kvError \<Rightarrow>
                if includes_str (err_message kvError) ''WRONGTYPE''
                   \<or> includes_str (err_message kvError) ''no such key''
                then respond 200 (JArr [])
                else get_emails_catch NODE_ENV kvError)"
    using assms by (rule getEmailsHandler_authorised)
  have a: "lRange c ''emails'' 0 99 = Inr [] \<longrightarrow>
            getEmailsHandler jwt_verify (Inr c) lRange JSON_parse JWT_SECRET NODE_ENV ''GET''
              (Some (''Bearer '' @ tok)) = respond 200 (JArr [])"
    using H by (simp add: parse_emails_def)
  have b: "\<forall>e. lRange c ''emails'' 0 99 = Inl e \<and> includes_str (err_message e) ''WRONGTYPE'' \<longrightarrow>
            getEmailsHandler jwt_verify (Inr c) lRange JSON_parse JWT_SECRET NODE_ENV ''GET''
              (Some (''Bearer '' @ tok)) = respond 200 (JArr [])"
    using H by simp
  have c: "\<exists>ys. getEmailsHandler jwt_verify (Inr c) lRange JSON_parse JWT_SECRET NODE_ENV ''GET''
                     (Some (''Bearer '' @ tok)) = respond 200 (JArr ys)
                 \<and> mset ys = mset (map (record_of JSON_parse) (pre @ post))
                 \<and> length ys = length (pre @ post)"
    if r: "lRange c ''emails'' 0 99 = Inr (pre @ [bad] @ post)"
      and v: "\<forall>s \<in> set (pre @ post). deserializable JSON_parse s"
      and nb: "\<not> deserializable JSON_parse bad" for pre bad post
  proof -
    have "parse_emails JSON_parse (pre @ [bad] @ post)
            = map (record_of JSON_parse) pre @ map (record_of JSON_parse) post"
    proof -
      have "parse_emails JSON_parse pre = map (record_of JSON_parse) pre"
        using v by (intro parse_emails_valid) simp
      moreover have "parse_emails JSON_parse post = map (record_of JSON_parse) post"
        using v by (intro parse_emails_valid) simp
      moreover have "parse_emails JSON_parse [bad] = []"
        using nb by (rule parse_emails_bad)
      ultimately show ?thesis by (simp only: parse_emails_append append_Nil)
    qed
    then have "getEmailsHandler jwt_verify (Inr c) lRange JSON_parse JWT_SECRET NODE_ENV ''GET''
                 (Some (''Bearer '' @ tok))
               = respond 200 (JArr (rev (map (record_of JSON_parse) (pre @ post))))"
      using H by (simp add: r)
    then show ?thesis by (intro exI [of _ "rev (map (record_of JSON_parse) (pre @ post))"]) simp
  qed
  from a b c show ?thesis by blast
qed

text \<open>
  Claim C1 fails on the code: the list is read from its beginning, where \<open>lPush\<close> put the
  newest entry, and is then reversed, so the response starts with the oldest of the
  entries read. Here \<open>older\<close> was pushed before \<open>newer\<close>, and the record of \<open>older\<close>
  comes first in the response.
\<close>

theorem get_emails_oldest_first:
  "getEmailsHandler demo_verify (Inr ())
      (demo_lRange (store_lPush (store_lPush [] ''older'') ''newer''))
      demo_parse (Some ''s3cret'') None ''GET'' (Some ''Bearer good'')
     = respond 200 (JArr [JObj [(''id'', JStr ''email-1'')], JObj [(''id'', JStr ''email-2'')]])"
  by (simp add: getEmailsHandler_def demo_verify_def demo_lRange_def store_lPush_def
      store_lRange_def demo_parse_def parse_emails_def)

subsection \<open>The webhook\<close>

text \<open>
  Claim C4, for a POST request. Without a configured webhook secret the response has
  status 500 and no \<open>lPush\<close> is made; when the body could be read the response is the
  configuration error. When the verification of the body, the three signature headers
  and the secret throws, the response is 401 and no \<open>lPush\<close> is made. And whenever an
  \<open>lPush\<close> is made, the verification had returned an event.
\<close>

theorem webhook_unverified_not_stored:
  assumes post: "wh_method req = ''POST''"
  shows "(\<not> configured RESEND_WEBHOOK_SECRET \<longrightarrow>
            status (fst (handler verify client lPush JSON_stringify RESEND_WEBHOOK_SECRET NODE_ENV
                           now_ms now_iso req)) = 500
            \<and> snd (handler verify client lPush JSON_stringify RESEND_WEBHOOK_SECRET NODE_ENV
                      now_ms now_iso req) = []
            \<and> ((\<exists>rawBody. read_body JSON_stringify req = Inr rawBody) \<longrightarrow>
                 fst (handler verify client lPush JSON_stringify RESEND_WEBHOOK_SECRET NODE_ENV
                           now_ms now_iso req)
                   = respond 500 (error_body ''Webhook verification not configured'')))
       \<and> (\<forall>rawBody secret e.
            read_body JSON_stringify req = Inr rawBody
            \<and> RESEND_WEBHOOK_SECRET = Some secret \<and> secret \<noteq> []
            \<and> verify rawBody (signature_headers req) secret = Inl e \<longrightarrow>
            handler verify client lPush JSON_stringify RESEND_WEBHOOK_SECRET NODE_ENV
              now_ms now_iso req
              = (respond 401 (error_body ''Webhook verification failed.''), []))
       \<and> (snd (handler verify client lPush JSON_stringify RESEND_WEBHOOK_SECRET NODE_ENV
                  now_ms now_iso req) \<noteq> [] \<longrightarrow>
            (\<exists>rawBody secret event.
               read_body JSON_stringify req = Inr rawBody
               \<and> RESEND_WEBHOOK_SECRET = Some secret \<and> secret \<noteq> []
               \<and> verify rawBody (signature_headers req) secret = Inr event))"
proof -
  let ?R = "handler verify client lPush JSON_stringify RESEND_WEBHOOK_SECRET NODE_ENV
              now_ms now_iso req"
  show ?thesis
  proof (cases "read_body JSON_stringify req")
    case (Inl e)
    have R: "?R = (webhook_catch NODE_ENV e, [])"
      using post Inl by (simp add: handler_def)
    have "status (webhook_catch NODE_ENV e) = 500"
      by (simp add: webhook_catch_def respond_def)
    then show ?thesis unfolding R using Inl by simp
  next
    case (Inr rawBody)
    show ?thesis
    proof (cases "configured RESEND_WEBHOOK_SECRET")
      case False
      have R: "?R = (respond 500 (error_body ''Webhook verification not configured''), [])"
        using post Inr False by (simp add: handler_def)
      have "\<And>secret. RESEND_WEBHOOK_SECRET = Some secret \<Longrightarrow> secret = []"
        using False by (simp add: configured_def)
      then show ?thesis unfolding R using False by (auto simp add: respond_def)
    next
      case True
      then obtain secret where s: "RESEND_WEBHOOK_SECRET = Some secret" "secret \<noteq> []"
        by (auto simp add: configured_def split: option.splits)
      show ?thesis
      proof (cases "verify rawBody (signature_headers req) secret")
        case (Inl e)
        have R: "?R = (respond 401 (error_body ''Webhook verification failed.''), [])"
          using post Inr True s Inl by (simp add: handler_def)
        show ?thesis unfolding R using True by simp
      next
        case ev: (Inr event)
        have c1: "\<forall>rawBody' secret' e.
            read_body JSON_stringify req = Inr rawBody'
            \<and> RESEND_WEBHOOK_SECRET = Some secret' \<and> secret' \<noteq> []
            \<and> verify rawBody' (signature_headers req) secret' = Inl e \<longrightarrow>
            ?R = (respond 401 (error_body ''Webhook verification failed.''), [])"
          using Inr s ev by auto
        have c2: "\<exists>rawBody secret event.
               read_body JSON_stringify req = Inr rawBody
               \<and> RESEND_WEBHOOK_SECRET = Some secret \<and> secret \<noteq> []
               \<and> verify rawBody (signature_headers req) secret = Inr event"
          using Inr s ev by blast
        from True c1 c2 show ?thesis by blast
      qed
    qed
  qed
qed


lemma or_json_falsy: "\<not> truthy v \<Longrightarrow> or_json v d = d"
  by (cases v) (simp_all add: or_json_def)

lemma or_json_truthy: "truthy (Some x) \<Longrightarrow> or_json (Some x) d = x"
  by (simp add: or_json_def)

lemma stored_subject_string:
  assumes "\<not> truthy (get_prop emailData ''subject'') \<or> is_string (get_prop emailData ''subject'')"
  shows "is_string (get_prop (emailToStore now_ms now_iso emailData) ''subject'')"
proof (cases "truthy (get_prop emailData ''subject'')")
  case False
  then show ?thesis by (simp add: emailToStore_def or_json_falsy)
next
  case True
  with assms obtain s where "get_prop emailData ''subject'' = Some (JStr s)"
    by (cases "get_prop emailData ''subject''" rule: is_string.cases) auto
  with True show ?thesis by (simp add: emailToStore_def or_json_def)
qed

text \<open>
  Claim C7. A verified event of type \<open>email.received\<close> with data, whose subject is
  missing or a string, is stored when the client is there and \<open>lPush\<close> succeeds: the
  response is 200 and one \<open>lPush\<close> of the serialised record is made. In the record a
  missing \<open>from\<close> or \<open>to\<close> is \<open>Unknown\<close>, a missing subject is \<open>(No Subject)\<close>, a missing
  \<open>email_id\<close> gives the id \<open>email-\<close> followed by the time of ingestion, and a field
  that is there keeps its value.
\<close>

theorem ingest_defaults:
  assumes post: "wh_method req = ''POST''"
    and rb: "read_body JSON_stringify req = Inr rawBody"
    and sec: "RESEND_WEBHOOK_SECRET = Some secret" "secret \<noteq> []"
    and ver: "verify rawBody (signature_headers req) secret = Inr event"
    and ty: "get_prop event ''type'' = Some (JStr ''email.received'')"
    and dat: "get_prop event ''data'' = Some emailData" "truthy (Some emailData)"
    and subj: "\<not> truthy (get_prop emailData ''subject'') \<or> is_string (get_prop emailData ''subject'')"
    and cl: "client = Inr c"
    and push: "lPush c ''emails'' (JSON_stringify (emailToStore now_ms now_iso emailData)) = Inr n"
  shows "handler verify client lPush JSON_stringify RESEND_WEBHOOK_SECRET NODE_ENV now_ms now_iso req
           = (respond 200 (JObj [(''message'', JStr ''Webhook processed successfully.'')]),
              [(''emails'', JSON_stringify (emailToStore now_ms now_iso emailData))])
       \<and> (\<not> truthy (get_prop emailData ''from'') \<longrightarrow>
            get_prop (emailToStore now_ms now_iso emailData) ''from'' = Some (JStr ''Unknown''))
       \<and> (\<not> truthy (get_prop emailData ''to'') \<longrightarrow>
            get_prop (emailToStore now_ms now_iso emailData) ''to'' = Some (JStr ''Unknown''))
       \<and> (\<not> truthy (get_prop emailData ''subject'') \<longrightarrow>
            get_prop (emailToStore now_ms now_iso emailData) ''subject'' = Some (JStr ''(No Subject)''))
       \<and> (\<not> truthy (get_prop emailData ''email_id'') \<longrightarrow>
            get_prop (emailToStore now_ms now_iso emailData) ''id''
              = Some (JStr (''email-'' @ decimal now_ms)))
       \<and> (\<forall>v. get_prop emailData ''from'' = Some v \<and> truthy (Some v) \<longrightarrow>
            get_prop (emailToStore now_ms now_iso emailData) ''from'' = Some v)
       \<and> (\<forall>v. get_prop emailData ''to'' = Some v \<and> truthy (Some v) \<longrightarrow>
            get_prop (emailToStore now_ms now_iso emailData) ''to'' = Some v)
       \<and> (\<forall>v. get_prop emailData ''subject'' = Some v \<and> truthy (Some v) \<longrightarrow>
            get_prop (emailToStore now_ms now_iso emailData) ''subject'' = Some v)
       \<and> (\<forall>v. get_prop emailData ''email_id'' = Some v \<and> truthy (Some v) \<longrightarrow>
            get_prop (emailToStore now_ms now_iso emailData) ''id'' = Some v)"
proof -
  have ne: "event \<noteq> JNull" using ty by auto
  have ss: "is_string (get_prop (emailToStore now_ms now_iso emailData) ''subject'')"
    using subj by (rule stored_subject_string)
  have P: "process_event client lPush JSON_stringify NODE_ENV now_ms now_iso event
             = (respond 200 (JObj [(''message'', JStr ''Webhook processed successfully.'')]),
                [(''emails'', JSON_stringify (emailToStore now_ms now_iso emailData))])"
    using ne ty dat cl ss push by (simp add: process_event_def Let_def)
  have R: "handler verify client lPush JSON_stringify RESEND_WEBHOOK_SECRET NODE_ENV now_ms now_iso req
           = (respond 200 (JObj [(''message'', JStr ''Webhook processed successfully.'')]),
              [(''emails'', JSON_stringify (emailToStore now_ms now_iso emailData))])"
    using post rb sec ver P by (simp add: handler_def configured_def)
  have F: "\<And>k d. \<not> truthy (get_prop emailData k) \<Longrightarrow> or_json (get_prop emailData k) d = d"
    by (rule or_json_falsy)
  show ?thesis unfolding R by (simp add: emailToStore_def F or_json_truthy)
qed

subsection \<open>The language of the empty-body patterns\<close>









































subsection \<open>Sending\<close>










subsection \<open>Examples of reading and of the webhook\<close>

theorem list_read_tolerant_witness:
  "getEmailsHandler demo_verify (Inr ()) (demo_lRange []) demo_parse
      (Some ''s3cret'') None ''GET'' (Some ''Bearer good'') = respond 200 (JArr [])
   \<and> getEmailsHandler demo_verify (Inr ()) demo_wrongtype
        demo_parse (Some ''s3cret'') None ''GET'' (Some ''Bearer good'') = respond 200 (JArr [])
   \<and> (\<exists>ys. getEmailsHandler demo_verify (Inr ()) (demo_lRange [''newer'', ''{oops'', ''older''])
               demo_parse (Some ''s3cret'') None ''GET'' (Some ''Bearer good'')
               = respond 200 (JArr ys)
           \<and> mset ys = mset [JObj [(''id'', JStr ''email-2'')], JObj [(''id'', JStr ''email-1'')]]
           \<and> length ys = 2)"
proof -
  have s: "Some ''s3cret'' = Some ''s3cret''" "''s3cret'' \<noteq> []" by simp_all
  have v: "demo_verify (takeWhile (\<lambda>c. c \<noteq> CHR '' '') ''good'') ''s3cret''
             = Inr (JObj [(''user'', JStr ''admin'')])"
    by (simp add: demo_verify_def)
  have e: "demo_lRange [] () ''emails'' 0 99 = Inr []"
    by (simp add: demo_lRange_def store_lRange_def)
  have w: "demo_wrongtype () ''emails'' 0 99 = Inl (mk_error ''Error''
         ''WRONGTYPE Operation against a key holding the wrong kind of value'')
       \<and> includes_str (err_message (mk_error ''Error''
         ''WRONGTYPE Operation against a key holding the wrong kind of value'')) ''WRONGTYPE''"
    by (simp add: mk_error_def demo_wrongtype_def)
  have m: "demo_lRange [''newer'', ''{oops'', ''older''] () ''emails'' 0 99
             = Inr ([''newer''] @ [''{oops''] @ [''older''])
           \<and> (\<forall>s \<in> set ([''newer''] @ [''older'']). deserializable demo_parse s)
           \<and> \<not> deserializable demo_parse ''{oops''"
    by (simp add: demo_lRange_def store_lRange_def deserializable_def demo_parse_def)
  have r: "map (record_of demo_parse) ([''newer''] @ [''older''])
             = [JObj [(''id'', JStr ''email-2'')], JObj [(''id'', JStr ''email-1'')]]"
    by (simp add: record_of_def demo_parse_def)
  have a: "getEmailsHandler demo_verify (Inr ()) (demo_lRange []) demo_parse
      (Some ''s3cret'') None ''GET'' (Some (''Bearer '' @ ''good'')) = respond 200 (JArr [])"
    using list_read_tolerant [where jwt_verify = demo_verify and tok = "''good''" and c = "()"
      and lRange = "demo_lRange []" and JSON_parse = demo_parse and NODE_ENV = None, OF s v] e
    by blast
  have b: "getEmailsHandler demo_verify (Inr ()) demo_wrongtype
        demo_parse (Some ''s3cret'') None ''GET'' (Some (''Bearer '' @ ''good''))
        = respond 200 (JArr [])"
    using list_read_tolerant [where jwt_verify = demo_verify and tok = "''good''" and c = "()"
      and lRange = demo_wrongtype and JSON_parse = demo_parse and NODE_ENV = None, OF s v] w
    by blast
  have c: "\<exists>ys. getEmailsHandler demo_verify (Inr ()) (demo_lRange [''newer'', ''{oops'', ''older''])
               demo_parse (Some ''s3cret'') None ''GET'' (Some (''Bearer '' @ ''good''))
               = respond 200 (JArr ys)
           \<and> mset ys = mset (map (record_of demo_parse) ([''newer''] @ [''older'']))
           \<and> length ys = length ([''newer''] @ [''older''])"
    using list_read_tolerant [where jwt_verify = demo_verify and tok = "''good''" and c = "()"
      and lRange = "demo_lRange [''newer'', ''{oops'', ''older'']"
      and JSON_parse = demo_parse and NODE_ENV = None, OF s v] m
    by blast
  from a b c [unfolded r] show ?thesis by (auto simp add: numeral_2_eq_2)
qed

theorem webhook_unverified_not_stored_witness:
  "handler demo_webhook_verify (Inr ()) demo_lPush demo_stringify None None
      1700000000123 ''2023-11-14T22:13:20.123Z'' demo_webhook_request
     = (respond 500 (error_body ''Webhook verification not configured''), [])
   \<and> handler demo_webhook_verify (Inr ()) demo_lPush demo_stringify (Some ''whsec'') None
      1700000000123 ''2023-11-14T22:13:20.123Z''
      (demo_webhook_request\<lparr>svix_signature := Some ''v1,forged''\<rparr>)
     = (respond 401 (error_body ''Webhook verification failed.''), [])
   \<and> snd (handler demo_webhook_verify (Inr ()) demo_lPush demo_stringify (Some ''whsec'') None
      1700000000123 ''2023-11-14T22:13:20.123Z'' demo_webhook_request) \<noteq> []
   \<and> (\<exists>rawBody secret event.
         read_body demo_stringify demo_webhook_request = Inr rawBody
         \<and> Some ''whsec'' = Some secret \<and> secret \<noteq> []
         \<and> demo_webhook_verify rawBody (signature_headers demo_webhook_request) secret = Inr event)"
proof -
  let ?forged = "demo_webhook_request\<lparr>svix_signature := Some ''v1,forged''\<rparr>"
  have p1: "wh_method demo_webhook_request = ''POST''"
    by (simp add: demo_webhook_request_def)
  have p2: "wh_method ?forged = ''POST''"
    by (simp add: demo_webhook_request_def)
  have n: "\<not> configured None" by (simp add: configured_def)
  have rb: "\<exists>rawBody. read_body demo_stringify demo_webhook_request = Inr rawBody"
    by (simp add: read_body_def demo_webhook_request_def)
  have f: "read_body demo_stringify ?forged = Inr ''payload''
      \<and> Some ''whsec'' = Some ''whsec'' \<and> ''whsec'' \<noteq> []
      \<and> demo_webhook_verify ''payload'' (signature_headers ?forged) ''whsec''
          = Inl (mk_error ''Error'' ''No matching signature found'')"
    by (simp add: read_body_def demo_webhook_request_def demo_webhook_verify_def
        signature_headers_def)
  have st: "snd (handler demo_webhook_verify (Inr ()) demo_lPush demo_stringify (Some ''whsec'')
      None 1700000000123 ''2023-11-14T22:13:20.123Z'' demo_webhook_request) \<noteq> []"
    by (simp add: handler_def process_event_def read_body_def demo_webhook_request_def
        demo_webhook_verify_def signature_headers_def configured_def demo_event_def
        emailToStore_def or_json_def demo_lPush_def Let_def)
  have a: "handler demo_webhook_verify (Inr ()) demo_lPush demo_stringify None None
      1700000000123 ''2023-11-14T22:13:20.123Z'' demo_webhook_request
     = (respond 500 (error_body ''Webhook verification not configured''), [])"
    using webhook_unverified_not_stored [OF p1, where RESEND_WEBHOOK_SECRET = None
        and JSON_stringify = demo_stringify and verify = demo_webhook_verify
        and client = "Inr ()" and lPush = demo_lPush and NODE_ENV = None
        and now_ms = 1700000000123 and now_iso = "''2023-11-14T22:13:20.123Z''"] n rb
    by (metis prod.collapse)
  have b: "handler demo_webhook_verify (Inr ()) demo_lPush demo_stringify (Some ''whsec'') None
      1700000000123 ''2023-11-14T22:13:20.123Z'' ?forged
     = (respond 401 (error_body ''Webhook verification failed.''), [])"
    using webhook_unverified_not_stored [OF p2, where RESEND_WEBHOOK_SECRET = "Some ''whsec''"
        and JSON_stringify = demo_stringify and verify = demo_webhook_verify
        and client = "Inr ()" and lPush = demo_lPush and NODE_ENV = None
        and now_ms = 1700000000123 and now_iso = "''2023-11-14T22:13:20.123Z''"] f
    by blast
  have c: "\<exists>rawBody secret event.
         read_body demo_stringify demo_webhook_request = Inr rawBody
         \<and> Some ''whsec'' = Some secret \<and> secret \<noteq> []
         \<and> demo_webhook_verify rawBody (signature_headers demo_webhook_request) secret = Inr event"
    using webhook_unverified_not_stored [OF p1, where RESEND_WEBHOOK_SECRET = "Some ''whsec''"
        and JSON_stringify = demo_stringify and verify = demo_webhook_verify
        and client = "Inr ()" and lPush = demo_lPush and NODE_ENV = None
        and now_ms = 1700000000123 and now_iso = "''2023-11-14T22:13:20.123Z''"] st
    by blast
  from a b st c show ?thesis by blast
qed

theorem ingest_defaults_witness:
  "handler demo_webhook_verify (Inr ()) demo_lPush demo_stringify (Some ''whsec'') None
      1700000000123 ''2023-11-14T22:13:20.123Z'' demo_webhook_request
     = (respond 200 (JObj [(''message'', JStr ''Webhook processed successfully.'')]),
        [(''emails'',
          ''id=email-1700000000123;from=ann@example.org;to=Unknown;subject=(No Subject);receivedAt=2023-11-14T22:13:20.123Z;'')])"
proof -
  let ?data = "JObj [(''from'', JStr ''ann@example.org''), (''subject'', JNull)]"
  have h1: "wh_method demo_webhook_request = ''POST''"
    by (simp add: demo_webhook_request_def)
  have h2: "read_body demo_stringify demo_webhook_request = Inr ''payload''"
    by (simp add: read_body_def demo_webhook_request_def)
  have h3: "Some ''whsec'' = Some ''whsec''" "''whsec'' \<noteq> []" by simp_all
  have h4: "demo_webhook_verify ''payload'' (signature_headers demo_webhook_request) ''whsec''
              = Inr demo_event"
    by (simp add: demo_webhook_verify_def signature_headers_def demo_webhook_request_def)
  have h5: "get_prop demo_event ''type'' = Some (JStr ''email.received'')"
    by (simp add: demo_event_def)
  have h6: "get_prop demo_event ''data'' = Some ?data" "truthy (Some ?data)"
    by (simp_all add: demo_event_def)
  have h7: "\<not> truthy (get_prop ?data ''subject'') \<or> is_string (get_prop ?data ''subject'')"
    by simp
  have h8: "(Inr () :: js_error + unit) = Inr ()" by simp
  have h9: "demo_lPush () ''emails''
              (demo_stringify (emailToStore 1700000000123 ''2023-11-14T22:13:20.123Z'' ?data))
              = Inr 1"
    by (simp add: demo_lPush_def)
  have d: "decimal 1700000000123 = ''1700000000123''"
    by (simp add: decimal.simps digit_def)
  have ser: "demo_stringify (emailToStore 1700000000123 ''2023-11-14T22:13:20.123Z'' ?data)
    = ''id=email-1700000000123;from=ann@example.org;to=Unknown;subject=(No Subject);receivedAt=2023-11-14T22:13:20.123Z;''"
    by (simp add: demo_stringify_def emailToStore_def or_json_def d)
  show ?thesis
    using ingest_defaults [where verify = demo_webhook_verify and lPush = demo_lPush
        and NODE_ENV = None, OF h1 h2 h3 h4 h5 h6 h7 h8 h9]
    unfolding ser by blast
qed

subsection \<open>Examples of sending\<close>


subsection \<open>The connection\<close>

text \<open>
  What \<open>getRedisClient\<close> does. A cached client that reports itself open is returned as
  it is, and no client is created. Otherwise, without a configured REDIS_URL the call
  throws the configuration error and creates nothing. Otherwise one client is created,
  for that URL and with \<open>reconnectStrategy\<close> as its reconnect policy; when that client
  is not open and \<open>connect\<close> throws, the call throws the same error and the cached
  client is discarded, and when \<open>connect\<close> succeeds the client is returned and cached.
\<close>

theorem getRedisClient_contract:
  "(redisClient = Some c \<and> isOpen c \<longrightarrow>
      getRedisClient createClient isOpen connect REDIS_URL redisClient
        = \<lparr>outcome = Inr c, cache = Some c, created = []\<rparr>)
   \<and> (\<not> (\<exists>c. redisClient = Some c \<and> isOpen c) \<and> \<not> configured REDIS_URL \<longrightarrow>
      getRedisClient createClient isOpen connect REDIS_URL redisClient
        = \<lparr>outcome = Inl (mk_error ''Error'' ''REDIS_URL is not configured''),
           cache = redisClient, created = []\<rparr>)
   \<and> (\<not> (\<exists>c. redisClient = Some c \<and> isOpen c) \<and> REDIS_URL = Some u \<and> u \<noteq> [] \<longrightarrow>
      (\<exists>opts. created (getRedisClient createClient isOpen connect REDIS_URL redisClient) = [opts]
         \<and> opt_url opts = u
         \<and> (\<forall>retries. opt_reconnectStrategy opts retries =
               (if 3 < retries then GiveUp (mk_error ''Error'' ''Redis reconnection failed'')
                else Delay (min (retries * 100) 3000)))
         \<and> (\<not> isOpen (createClient opts) \<longrightarrow>
              (\<forall>e. connect (createClient opts) = Inl e \<longrightarrow>
                 outcome (getRedisClient createClient isOpen connect REDIS_URL redisClient) = Inl e
                 \<and> cache (getRedisClient createClient isOpen connect REDIS_URL redisClient) = None)
              \<and> (\<forall>c'. connect (createClient opts) = Inr c' \<longrightarrow>
                 outcome (getRedisClient createClient isOpen connect REDIS_URL redisClient) = Inr c'
                 \<and> cache (getRedisClient createClient isOpen connect REDIS_URL redisClient) = Some c'))))"
  by (cases redisClient)
    (auto simp add: getRedisClient_def configured_def reconnectStrategy_def Let_def
      split: sum.splits)

theorem getRedisClient_contract_witness:
  "getRedisClient (\<lambda>opts. False) (\<lambda>c. c) (\<lambda>c. Inr True) (Some ''redis://db'') (Some True)
     = \<lparr>outcome = Inr True, cache = Some True, created = []\<rparr>
   \<and> getRedisClient (\<lambda>opts. False) (\<lambda>c. c) (\<lambda>c. Inr True) None (Some False)
     = \<lparr>outcome = Inl (mk_error ''Error'' ''REDIS_URL is not configured''),
        cache = Some False, created = []\<rparr>
   \<and> (\<exists>opts. created (getRedisClient (\<lambda>opts. False) (\<lambda>c. c)
                 (\<lambda>c. Inl (mk_error ''Error'' ''connect ECONNREFUSED'')) (Some ''redis://db'')
                 (Some False)) = [opts]
        \<and> opt_url opts = ''redis://db''
        \<and> opt_reconnectStrategy opts 2 = Delay 200
        \<and> opt_reconnectStrategy opts 3 = Delay 300
        \<and> opt_reconnectStrategy opts 4 = GiveUp (mk_error ''Error'' ''Redis reconnection failed''))
   \<and> outcome (getRedisClient (\<lambda>opts. False) (\<lambda>c. c)
                 (\<lambda>c. Inl (mk_error ''Error'' ''connect ECONNREFUSED'')) (Some ''redis://db'')
                 (Some False)) = Inl (mk_error ''Error'' ''connect ECONNREFUSED'')
   \<and> cache (getRedisClient (\<lambda>opts. False) (\<lambda>c. c)
                 (\<lambda>c. Inl (mk_error ''Error'' ''connect ECONNREFUSED'')) (Some ''redis://db'')
                 (Some False)) = None"
proof -
  let ?mk = "\<lambda>opts::client_options. False"
  let ?open = "\<lambda>c::bool. c"
  let ?ok = "\<lambda>c::bool. (Inr True :: js_error + bool)"
  let ?fail = "\<lambda>c::bool. (Inl (mk_error ''Error'' ''connect ECONNREFUSED'') :: js_error + bool)"
  have a: "getRedisClient ?mk ?open ?ok (Some ''redis://db'') (Some True)
     = \<lparr>outcome = Inr True, cache = Some True, created = []\<rparr>"
    using getRedisClient_contract [of "Some True" True ?open ?mk ?ok "Some ''redis://db''"]
    by simp
  have b: "getRedisClient ?mk ?open ?ok None (Some False)
     = \<lparr>outcome = Inl (mk_error ''Error'' ''REDIS_URL is not configured''),
        cache = Some False, created = []\<rparr>"
    using getRedisClient_contract [of "Some False" _ ?open ?mk ?ok None]
    by (simp add: configured_def)
  have c: "(\<exists>opts. created (getRedisClient ?mk ?open ?fail (Some ''redis://db'') (Some False))
                     = [opts]
        \<and> opt_url opts = ''redis://db''
        \<and> opt_reconnectStrategy opts 2 = Delay 200
        \<and> opt_reconnectStrategy opts 3 = Delay 300
        \<and> opt_reconnectStrategy opts 4 = GiveUp (mk_error ''Error'' ''Redis reconnection failed''))
      \<and> outcome (getRedisClient ?mk ?open ?fail (Some ''redis://db'') (Some False))
          = Inl (mk_error ''Error'' ''connect ECONNREFUSED'')
      \<and> cache (getRedisClient ?mk ?open ?fail (Some ''redis://db'') (Some False)) = None"
    using getRedisClient_contract [of "Some False" _ ?open ?mk ?fail "Some ''redis://db''"
        "''redis://db''"]
    by auto
  from a b c show ?thesis by blast
qed

text \<open>
  Claim C9 fails on the code at the reconnect policy. The policy of the client that
  \<open>getRedisClient\<close> creates is asked with the number of retries so far: at 3 it still
  answers a delay, of 300 milliseconds, and it gives up only at 4, because the test of
  the code is \<open>retries > 3\<close>, while its own log line says that the reconnection failed
  after 3 attempts. The delays it ever answers are 0, 100, 200 and 300 milliseconds.
\<close>

theorem reconnect_retries_past_three:
  "map (\<lambda>opts. map (opt_reconnectStrategy opts) [0, 1, 2, 3, 4])
     (created (getRedisClient (\<lambda>opts. False) (\<lambda>c. c)
        (\<lambda>c. Inl (mk_error ''Error'' ''connect ECONNREFUSED'')) (Some ''redis://db'') None))
     = [[Delay 0, Delay 100, Delay 200, Delay 300,
         GiveUp (mk_error ''Error'' ''Redis reconnection failed'')]]"
  by (simp add: getRedisClient_def configured_def reconnectStrategy_def Let_def)

subsection \<open>The recipient's domain\<close>

lemma no_empty_address: "\<not> matches emailRegex []"
  by (simp add: emailRegex_def seqs_def Plus_def lit_def)

lemma isValidEmail_trim: "isValidEmail (Some (JStr s)) = isValidEmail (Some (JStr (trim s)))"
proof (cases "trim s = []")
  case True
  then show ?thesis using no_empty_address by (simp add: isValidEmail_def)
next
  case False
  then have "s \<noteq> []" by (auto simp add: trim_def)
  with False show ?thesis by (simp add: isValidEmail_def trim_idem)
qed

text \<open>
  Claim C10. An address \<open>local@domain\<close> whose domain has no dot is not valid, and a POST
  with a configured API key that names it as recipient is answered 400 with nothing
  handed to the provider. The check looks at the trimmed address: a string and its
  trimmed form are valid together or not at all.
\<close>

theorem email_domain_needs_dot:
  assumes nodot: "CHR ''.'' \<notin> set d"
    and key: "configured RESEND_API_KEY"
    and to: "get_prop b ''to'' = Some (JStr (l @ ''@'' @ d))"
  shows "\<not> isValidEmail (Some (JStr (l @ ''@'' @ d)))
       \<and> sendEmailHandler resend_send ''POST'' RESEND_API_KEY (Some b)
           = (respond 400 (error_message (JStr ''Invalid email address format.'')), [])
       \<and> (\<forall>s. isValidEmail (Some (JStr s)) = isValidEmail (Some (JStr (trim s))))"
proof -
  have inv: "\<not> isValidEmail (Some (JStr (l @ ''@'' @ d)))"
    using nodot domain_needs_dot [of l d] by (auto simp add: isValidEmail_def)
  have b: "b \<noteq> JNull" using to by auto
  have "truthy (get_prop b ''to'') \<and> is_string (get_prop b ''to'')" using to by simp
  then have "sendEmailHandler resend_send ''POST'' RESEND_API_KEY (Some b)
           = (respond 400 (error_message (JStr ''Invalid email address format.'')), [])"
    using key b inv to by (simp add: sendEmailHandler_def validate_and_send_def Let_def)
  with inv isValidEmail_trim show ?thesis by blast
qed

theorem email_domain_needs_dot_witness:
  "\<not> isValidEmail (Some (JStr ''a@b''))
   \<and> sendEmailHandler demo_send ''POST'' (Some ''re_key'')
        (Some (demo_mail ''a@b'' ''Hi'' ''<p>hello</p>''))
       = (respond 400 (error_message (JStr ''Invalid email address format.'')), [])
   \<and> isValidEmail (Some (JStr '' ann@example.org '')) = isValidEmail (Some (JStr ''ann@example.org''))"
proof -
  have h1: "CHR ''.'' \<notin> set ''b''" by simp
  have h2: "configured (Some ''re_key'')" by (simp add: configured_def)
  have h3: "get_prop (demo_mail ''a@b'' ''Hi'' ''<p>hello</p>'') ''to'' = Some (JStr (''a'' @ ''@'' @ ''b''))"
    by (simp add: demo_mail_def)
  have t: "trim '' ann@example.org '' = ''ann@example.org''"
    by (simp add: trim_def is_space_def whitespace_def)
  from email_domain_needs_dot [OF h1 h2 h3, of demo_send] t show ?thesis
    by (metis append_Cons append_Nil)
qed

subsection \<open>The session token\<close>

lemma takeWhile_no_space: "CHR '' '' \<notin> set w \<Longrightarrow> takeWhile (\<lambda>c. c \<noteq> CHR '' '') w = w"
  by (induction w) auto

lemma getEmailsHandler_rejected:
  assumes "secret \<noteq> []"
    and "jwt_verify (takeWhile (\<lambda>c. c \<noteq> CHR '' '') tok) secret = Inl e"
  shows "getEmailsHandler jwt_verify client lRange JSON_parse (Some secret) NODE_ENV ''GET''
           (Some (''Bearer '' @ tok)) = get_emails_catch NODE_ENV e"
proof -
  have "starts_with (''Bearer '' @ tok) ''Bearer ''" by (rule starts_with_append)
  then show ?thesis using assms by (simp add: getEmailsHandler_def Let_def)
qed

lemma expired_401: "status (get_emails_catch NODE_ENV ExpiredToken) = 401"
  by (simp add: get_emails_catch_def ExpiredToken_def mk_error_def instance_of_def respond_def)

text \<open>
  Claim C5, on the token library as the specification describes it. A login with the
  right password at time \<open>T\<close> answers 200 with a token that carries \<open>{user: "admin"}\<close>,
  expires at \<open>T\<close> plus 8 hours and is signed with the secret. At every time before
  \<open>T\<close> plus 8 hours the verification of that token under the same secret returns the
  claims and the list handler serves the list; at every time after \<open>T\<close> plus 8 hours
  the verification fails with the expiry error and the list handler answers 401. The
  token in its wire form is readable and holds no space.
\<close>

theorem token_lifetime:
  assumes pw: "constantTimeCompare password adminPassword = Inr True"
    and secret: "secret \<noteq> []"
    and wire: "of_wire (to_wire (issue mac T admin_claims secret))
                 = Some (issue mac T admin_claims secret)"
    and nospace: "CHR '' '' \<notin> set (to_wire (issue mac T admin_claims secret))"
    and found: "lRange c ''emails'' 0 99 = Inr found"
  shows "loginHandler (jwt_sign_spec mac to_wire T) ''POST'' (Some password)
           (Some adminPassword) (Some secret)
           = Inr (respond 200 (JObj [(''token'',
               JStr (to_wire (issue mac T admin_claims secret)))]))
       \<and> tok_claims (issue mac T admin_claims secret) = JObj [(''user'', JStr ''admin'')]
       \<and> tok_expires (issue mac T admin_claims secret) = T + 8 * 60 * 60 * 1000
       \<and> tok_signature (issue mac T admin_claims secret)
           = mac secret (JObj [(''user'', JStr ''admin'')]) (T + 8 * 60 * 60 * 1000)
       \<and> (\<forall>t. t < T + 8 * 60 * 60 * 1000 \<longrightarrow>
            jwt_verify_spec mac of_wire t (to_wire (issue mac T admin_claims secret)) secret
              = Inr (JObj [(''user'', JStr ''admin'')])
            \<and> getEmailsHandler (jwt_verify_spec mac of_wire t) (Inr c) lRange JSON_parse
                 (Some secret) NODE_ENV ''GET''
                 (Some (''Bearer '' @ to_wire (issue mac T admin_claims secret)))
              = respond 200 (JArr (rev (parse_emails JSON_parse found))))
       \<and> (\<forall>t. T + 8 * 60 * 60 * 1000 < t \<longrightarrow>
            jwt_verify_spec mac of_wire t (to_wire (issue mac T admin_claims secret)) secret
              = Inl ExpiredToken
            \<and> status (getEmailsHandler (jwt_verify_spec mac of_wire t) (Inr c) lRange JSON_parse
                 (Some secret) NODE_ENV ''GET''
                 (Some (''Bearer '' @ to_wire (issue mac T admin_claims secret)))) = 401)"
proof -
  let ?tk = "issue mac T admin_claims secret"
  let ?w = "to_wire ?tk"
  have ne: "adminPassword \<noteq> []"
    using pw by (auto simp add: constantTimeCompare_def split: if_splits)
  have login: "loginHandler (jwt_sign_spec mac to_wire T) ''POST'' (Some password)
           (Some adminPassword) (Some secret) = Inr (respond 200 (JObj [(''token'', JStr ?w)]))"
    using pw ne secret by (simp add: loginHandler_def jwt_sign_spec_def admin_claims_def)
  have fields: "tok_claims ?tk = JObj [(''user'', JStr ''admin'')]"
    "tok_expires ?tk = T + 8 * 60 * 60 * 1000"
    "tok_signature ?tk = mac secret (JObj [(''user'', JStr ''admin'')]) (T + 8 * 60 * 60 * 1000)"
    by (simp_all add: issue_def admin_claims_def eight_hours_def)
  have tw: "takeWhile (\<lambda>c. c \<noteq> CHR '' '') ?w = ?w"
    using nospace by (rule takeWhile_no_space)
  have dec: "\<And>t. jwt_verify_spec mac of_wire t ?w secret = verify_token mac t ?tk secret"
    by (simp add: jwt_verify_spec_def wire)
  have early: "jwt_verify_spec mac of_wire t ?w secret = Inr (JObj [(''user'', JStr ''admin'')])
      \<and> getEmailsHandler (jwt_verify_spec mac of_wire t) (Inr c) lRange JSON_parse
           (Some secret) NODE_ENV ''GET'' (Some (''Bearer '' @ ?w))
         = respond 200 (JArr (rev (parse_emails JSON_parse found)))"
    if t: "t < T + 8 * 60 * 60 * 1000" for t
  proof -
    have v: "jwt_verify_spec mac of_wire t ?w secret = Inr (JObj [(''user'', JStr ''admin'')])"
      unfolding dec using t
      by (simp add: verify_token_def issue_def admin_claims_def eight_hours_def)
    have v': "jwt_verify_spec mac of_wire t (takeWhile (\<lambda>c. c \<noteq> CHR '' '') ?w) secret
                = Inr (JObj [(''user'', JStr ''admin'')])"
      using v by (simp only: tw)
    have s: "Some secret = Some secret" by simp
    have "getEmailsHandler (jwt_verify_spec mac of_wire t) (Inr c) lRange JSON_parse
           (Some secret) NODE_ENV ''GET'' (Some (''Bearer '' @ ?w))
         = (case lRange c ''emails'' 0 99 of
              Inr found \<Rightarrow> respond 200 (JArr (rev (parse_emails JSON_parse found)))
            | Inl kvError \<Rightarrow>
                if includes_str (err_message kvError) ''WRONGTYPE''
                   \<or> includes_str (err_message kvError) ''no such key''
                then respond 200 (JArr [])
                else get_emails_catch NODE_ENV kvError)"
      using s secret v' by (rule getEmailsHandler_authorised)
    with v show ?thesis by (simp add: found)
  qed
  have late: "jwt_verify_spec mac of_wire t ?w secret = Inl ExpiredToken
      \<and> status (getEmailsHandler (jwt_verify_spec mac of_wire t) (Inr c) lRange JSON_parse
           (Some secret) NODE_ENV ''GET'' (Some (''Bearer '' @ ?w))) = 401"
    if t: "T + 8 * 60 * 60 * 1000 < t" for t
  proof -
    have v: "jwt_verify_spec mac of_wire t ?w secret = Inl ExpiredToken"
      unfolding dec using t by (simp add: verify_token_def issue_def eight_hours_def)
    have v': "jwt_verify_spec mac of_wire t (takeWhile (\<lambda>c. c \<noteq> CHR '' '') ?w) secret
                = Inl ExpiredToken"
      using v by (simp only: tw)
    have "getEmailsHandler (jwt_verify_spec mac of_wire t) (Inr c) lRange JSON_parse
           (Some secret) NODE_ENV ''GET'' (Some (''Bearer '' @ ?w))
          = get_emails_catch NODE_ENV ExpiredToken"
      using secret v' by (rule getEmailsHandler_rejected)
    with v show ?thesis by (simp add: expired_401)
  qed
  from login fields early late show ?thesis by blast
qed

theorem token_lifetime_witness:
  "loginHandler (jwt_sign_spec demo_mac demo_to_wire 1000) ''POST'' (Some ''hunter2'')
       (Some ''hunter2'') (Some ''s3cret'')
     = Inr (respond 200 (JObj [(''token'', JStr ''header.payload.signature'')]))
   \<and> getEmailsHandler (jwt_verify_spec demo_mac demo_of_wire (1000 + (7 * 60 + 59) * 60 * 1000))
        (Inr ()) (demo_lRange [''newer'', ''older'']) demo_parse (Some ''s3cret'') None ''GET''
        (Some ''Bearer header.payload.signature'')
     = respond 200 (JArr [JObj [(''id'', JStr ''email-1'')], JObj [(''id'', JStr ''email-2'')]])
   \<and> jwt_verify_spec demo_mac demo_of_wire (1000 + (8 * 60 + 1) * 60 * 1000)
        ''header.payload.signature'' ''s3cret'' = Inl ExpiredToken
   \<and> status (getEmailsHandler
        (jwt_verify_spec demo_mac demo_of_wire (1000 + (8 * 60 + 1) * 60 * 1000))
        (Inr ()) (demo_lRange [''newer'', ''older'']) demo_parse (Some ''s3cret'') None ''GET''
        (Some ''Bearer header.payload.signature'')) = 401"
proof -
  let ?tk = "issue demo_mac 1000 admin_claims ''s3cret''"
  have h1: "constantTimeCompare ''hunter2'' ''hunter2'' = Inr True"
    by (simp add: constantTimeCompare_def timingSafeEqual_def)
  have h2: "''s3cret'' \<noteq> []" by simp
  have h3: "demo_of_wire (demo_to_wire ?tk) = Some ?tk"
    by (simp add: demo_of_wire_def demo_to_wire_def)
  have h4: "CHR '' '' \<notin> set (demo_to_wire ?tk)"
    by (simp add: demo_to_wire_def)
  have h5: "demo_lRange [''newer'', ''older''] () ''emails'' 0 99 = Inr [''newer'', ''older'']"
    by (simp add: demo_lRange_def store_lRange_def)
  have w: "demo_to_wire ?tk = ''header.payload.signature''"
    by (simp add: demo_to_wire_def)
  have p: "rev (parse_emails demo_parse [''newer'', ''older''])
             = [JObj [(''id'', JStr ''email-1'')], JObj [(''id'', JStr ''email-2'')]]"
    by (simp add: parse_emails_def demo_parse_def)
  have e: "(1000::int) + (7 * 60 + 59) * 60 * 1000 < 1000 + 8 * 60 * 60 * 1000" by simp
  have l: "(1000::int) + 8 * 60 * 60 * 1000 < 1000 + (8 * 60 + 1) * 60 * 1000" by simp
  note T = token_lifetime [where mac = demo_mac and to_wire = demo_to_wire
      and of_wire = demo_of_wire and lRange = "demo_lRange [''newer'', ''older'']"
      and JSON_parse = demo_parse and NODE_ENV = None and T = 1000, OF h1 h2 h3 h4 h5]
  have a: "loginHandler (jwt_sign_spec demo_mac demo_to_wire 1000) ''POST'' (Some ''hunter2'')
       (Some ''hunter2'') (Some ''s3cret'')
     = Inr (respond 200 (JObj [(''token'', JStr ''header.payload.signature'')]))"
    using T unfolding w by blast
  have b: "getEmailsHandler
        (jwt_verify_spec demo_mac demo_of_wire (1000 + (7 * 60 + 59) * 60 * 1000))
        (Inr ()) (demo_lRange [''newer'', ''older'']) demo_parse (Some ''s3cret'') None ''GET''
        (Some (''Bearer '' @ ''header.payload.signature''))
     = respond 200 (JArr [JObj [(''id'', JStr ''email-1'')], JObj [(''id'', JStr ''email-2'')]])"
    using T e unfolding w p by blast
  have c: "jwt_verify_spec demo_mac demo_of_wire (1000 + (8 * 60 + 1) * 60 * 1000)
        ''header.payload.signature'' ''s3cret'' = Inl ExpiredToken
      \<and> status (getEmailsHandler
        (jwt_verify_spec demo_mac demo_of_wire (1000 + (8 * 60 + 1) * 60 * 1000))
        (Inr ()) (demo_lRange [''newer'', ''older'']) demo_parse (Some ''s3cret'') None ''GET''
        (Some (''Bearer '' @ ''header.payload.signature''))) = 401"
    using T l unfolding w by blast
  from a b c show ?thesis by simp
qed

end
